theory Spec2Isabelle
  imports Complex_Main "HOL-Library.Sublist"
begin

section \<open>JavaScript values and built-ins used by the server\<close>

text \<open>
  The server (\<^verbatim>\<open>build/index.js\<close>, \<^verbatim>\<open>build/utils/npsApiClient.js\<close>) is JavaScript.
  Values that reach a serialised result or the query parameters of an upstream call are
  modelled by \<open>json\<close>: \<open>JUndefined\<close> is the value \<^verbatim>\<open>undefined\<close> (a property with that
  value is dropped by \<^verbatim>\<open>JSON.stringify\<close>), \<open>JNaN\<close> is the number NaN (serialised as
  \<^verbatim>\<open>null\<close>), \<open>JInfinity\<close> and \<open>JNegInfinity\<close> are the two infinite numbers (a JSON
  numeral beyond the range of a double is read as one of them), \<open>JNum\<close> is a finite
  number. The handlers only compare numbers, take \<^verbatim>\<open>Math.min\<close> and test them for
  truthiness, all of which are exact on doubles, so a finite number is a rational here
  (minus zero is zero). An object is the list of its own properties in creation order,
  with distinct keys.

  A string is the list of the bytes of its UTF-8 form (a string with an unpaired
  surrogate has no such form and is outside the model). Splitting at commas, joining,
  concatenation, comparison and the test for the empty string act on that form as they
  do on the UTF-16 form of JavaScript. The built-ins whose result depends on the Unicode
  tables are not defined here: \<^verbatim>\<open>String.prototype.trim\<close>,
  \<^verbatim>\<open>String.prototype.toUpperCase\<close> and the removal of leading white space with which
  \<^verbatim>\<open>parseInt\<close> begins are parameters, the fields \<open>trim\<close>, \<open>toUpperCase\<close> and
  \<open>trimStart\<close> of a \<open>runtime\<close>. So is the number that \<^verbatim>\<open>parseInt\<close> returns for a
  numeral above \<open>2^53\<close>, where a double rounds (and ECMAScript leaves the digits after
  the twentieth to the implementation): the field \<open>parseInt_large\<close>. Nothing is assumed
  of them; a theorem about the program holds for every runtime.
\<close>

datatype json =
    JUndefined
  | JNull
  | JBool bool
  | JNum rat
  | JNaN
  | JInfinity
  | JNegInfinity
  | JStr string
  | JArr "json list"
  | JObj "(string \<times> json) list"

type_synonym js_object = "(string \<times> json) list"

record runtime =
  trim :: "string \<Rightarrow> string"
  toUpperCase :: "string \<Rightarrow> string"
  trimStart :: "string \<Rightarrow> string"
  parseInt_large :: "string \<Rightarrow> json"

text \<open>
  \<^verbatim>\<open>s.split(sep)\<close> for a one-character separator: the pieces between the
  separators, so that the empty string gives one empty piece.
\<close>

fun js_split :: "char \<Rightarrow> string \<Rightarrow> string list" where
  "js_split sep [] = [[]]"
| "js_split sep (c # cs) =
     (if c = sep then [] # js_split sep cs
      else (c # hd (js_split sep cs)) # tl (js_split sep cs))"

text \<open>\<^verbatim>\<open>Array.prototype.join\<close> on an array of strings.\<close>

fun js_join :: "string \<Rightarrow> string list \<Rightarrow> string" where
  "js_join sep [] = []"
| "js_join sep [x] = x"
| "js_join sep (x # y # ys) = x @ sep @ js_join sep (y # ys)"

text \<open>
  Digits, for \<^verbatim>\<open>parseInt\<close> and for the array-index keys of an object: the value of a
  character as a digit, and the value of a digit string in radix \<open>R\<close>.
\<close>

definition digit_value :: "char \<Rightarrow> nat option" where
  "digit_value c =
     map_of (zip ''0123456789abcdefABCDEF''
       [0, 1, 2, 3, 4, 5, 6, 7, 8, 9, 10, 11, 12, 13, 14, 15, 10, 11, 12, 13, 14, 15]) c"

definition is_radix_digit :: "nat \<Rightarrow> char \<Rightarrow> bool" where
  "is_radix_digit R c = (case digit_value c of Some v \<Rightarrow> v < R | None \<Rightarrow> False)"

definition radix_value :: "nat \<Rightarrow> string \<Rightarrow> nat" where
  "radix_value R Z = foldl (\<lambda>acc c. acc * R + (case digit_value c of Some v \<Rightarrow> v | None \<Rightarrow> 0)) 0 Z"

text \<open>
  \<^verbatim>\<open>parseInt(string)\<close> with no radix argument, by the steps of ECMAScript. The input
  without its leading white space is \<open>S\<close>. The sign is \<open>-1\<close> when \<open>S\<close> begins with
  \<^verbatim>\<open>-\<close>; a leading \<^verbatim>\<open>+\<close> or \<^verbatim>\<open>-\<close> is removed. A prefix \<^verbatim>\<open>0x\<close> or \<^verbatim>\<open>0X\<close> is removed
  and selects radix 16, otherwise the radix is 10. The numeral \<open>Z\<close> is the longest
  run of digits of that radix at the front of what is left. With no digit the result is
  NaN. Otherwise it is the Number for the signed value of \<open>Z\<close>: that integer itself up
  to \<open>2^53\<close> (9007199254740992), where every integer is a double, and what the runtime
  makes of the numeral beyond.
\<close>

definition parseInt_sign :: "runtime \<Rightarrow> string \<Rightarrow> int" where
  "parseInt_sign rt inputString =
     (let S = trimStart rt inputString
      in if S \<noteq> [] \<and> hd S = CHR ''-'' then - 1 else 1)"

definition parseInt_unsigned :: "runtime \<Rightarrow> string \<Rightarrow> string" where
  "parseInt_unsigned rt inputString =
     (let S = trimStart rt inputString
      in if S \<noteq> [] \<and> (hd S = CHR ''+'' \<or> hd S = CHR ''-'') then tl S else S)"

definition parseInt_radix :: "runtime \<Rightarrow> string \<Rightarrow> nat" where
  "parseInt_radix rt inputString =
     (let S = parseInt_unsigned rt inputString
      in if take 2 S = ''0x'' \<or> take 2 S = ''0X'' then 16 else 10)"

definition parseInt_numeral :: "runtime \<Rightarrow> string \<Rightarrow> string" where
  "parseInt_numeral rt inputString =
     (let S = parseInt_unsigned rt inputString;
          R = parseInt_radix rt inputString
      in takeWhile (is_radix_digit R) (if R = 16 then drop 2 S else S))"

definition parseInt :: "runtime \<Rightarrow> string \<Rightarrow> json" where
  "parseInt rt inputString =
     (let Z = parseInt_numeral rt inputString;
          mathInt = radix_value (parseInt_radix rt inputString) Z
      in if Z = [] then JNaN
         else if mathInt \<le> 9007199254740992
           then JNum (of_int (parseInt_sign rt inputString * int mathInt))
         else parseInt_large rt inputString)"

text \<open>
  Property access \<^verbatim>\<open>obj.k\<close> on an object whose key \<open>k\<close> is not one that
  \<^verbatim>\<open>Object.prototype\<close> provides: the own property, or \<^verbatim>\<open>undefined\<close>.
\<close>

definition js_get :: "js_object \<Rightarrow> string \<Rightarrow> json" where
  "js_get obj k = (case map_of obj k of Some v \<Rightarrow> v | None \<Rightarrow> JUndefined)"

text \<open>Property access on a value: \<^verbatim>\<open>undefined\<close> when the value is not an object.\<close>

fun js_field :: "json \<Rightarrow> string \<Rightarrow> json" where
  "js_field (JObj obj) k = js_get obj k"
| "js_field v k = JUndefined"

text \<open>
  The truthiness of a value, as \<^verbatim>\<open>if (v)\<close>, \<^verbatim>\<open>v ? a : b\<close> and \<^verbatim>\<open>!v\<close> test it.
\<close>

fun truthy :: "json \<Rightarrow> bool" where
  "truthy JUndefined = False"
| "truthy JNull = False"
| "truthy (JBool b) = b"
| "truthy (JNum n) = (n \<noteq> 0)"
| "truthy JNaN = False"
| "truthy JInfinity = True"
| "truthy JNegInfinity = True"
| "truthy (JStr s) = (s \<noteq> [])"
| "truthy (JArr xs) = True"
| "truthy (JObj obj) = True"

text \<open>
  Writing a property: an existing key keeps its place, a new key goes last.
\<close>

fun js_set :: "('k \<times> 'v) list \<Rightarrow> 'k \<Rightarrow> 'v \<Rightarrow> ('k \<times> 'v) list" where
  "js_set [] k v = [(k, v)]"
| "js_set ((k', v') # obj) k v = (if k' = k then (k, v) # obj else (k', v') # js_set obj k v)"

text \<open>
  The order in which the own properties of an object are enumerated (by
  \<^verbatim>\<open>Object.entries\<close>, by an object spread and by \<^verbatim>\<open>JSON.stringify\<close>): the keys that
  are array indices (canonical decimal numerals below \<open>2^32 - 1\<close>) come first, in
  ascending numeric order, then the other string keys in creation order.
\<close>

definition is_array_index :: "string \<Rightarrow> bool" where
  "is_array_index k =
     (k \<noteq> [] \<and> list_all (is_radix_digit 10) k \<and> (k = ''0'' \<or> hd k \<noteq> CHR ''0'')
      \<and> radix_value 10 k < 4294967295)"

definition js_entries :: "(string \<times> 'v) list \<Rightarrow> (string \<times> 'v) list" where
  "js_entries obj =
     sort_key (\<lambda>(k, v). radix_value 10 k) (filter (\<lambda>(k, v). is_array_index k) obj)
     @ filter (\<lambda>(k, v). \<not> is_array_index k) obj"

definition js_keys :: "(string \<times> 'v) list \<Rightarrow> string list" where
  "js_keys obj = map fst (js_entries obj)"

text \<open>
  The object literal \<^verbatim>\<open>{ ...target, ...src }\<close>: the properties of \<open>src\<close> are written
  onto \<open>target\<close> in enumeration order, so a key of \<open>src\<close> replaces the value \<open>target\<close>
  had for it.
\<close>

definition js_spread :: "js_object \<Rightarrow> js_object \<Rightarrow> js_object" where
  "js_spread target src = foldl (\<lambda>obj (k, v). js_set obj k v) target (js_entries src)"

section \<open>Errors and schema validation\<close>

text \<open>
  What the code can throw. \<open>ZodError\<close> carries the issues of a failed
  \<^verbatim>\<open>Schema.parse\<close>; \<open>Error\<close> and \<open>TypeError\<close> are instances of \<^verbatim>\<open>Error\<close> with
  their message (an upstream failure is an \<open>Error\<close>: axios rejects with one);
  \<open>NonError\<close> is a thrown value that is not an instance of \<^verbatim>\<open>Error\<close>.
\<close>

datatype zod_issue = ZodIssue (issue_path: string) (issue_expected: string) (issue_received: string)

datatype js_error =
    ZodError "zod_issue list"
  | Error string
  | TypeError string
  | NonError

datatype ztype = ZString | ZNumber

text \<open>A field of a \<^verbatim>\<open>z.object\<close> schema: its key, its type, and whether it is optional.\<close>

type_synonym zshape = "(string \<times> ztype \<times> bool) list"

fun ztype_name :: "ztype \<Rightarrow> string" where
  "ztype_name ZString = ''string''"
| "ztype_name ZNumber = ''number''"

fun parsed_type :: "json \<Rightarrow> string" where
  "parsed_type JUndefined = ''undefined''"
| "parsed_type JNull = ''null''"
| "parsed_type (JBool b) = ''boolean''"
| "parsed_type (JNum n) = ''number''"
| "parsed_type JNaN = ''nan''"
| "parsed_type JInfinity = ''number''"
| "parsed_type JNegInfinity = ''number''"
| "parsed_type (JStr s) = ''string''"
| "parsed_type (JArr xs) = ''array''"
| "parsed_type (JObj obj) = ''object''"

definition zod_field :: "js_object \<Rightarrow> string \<times> ztype \<times> bool \<Rightarrow> zod_issue list \<times> js_object" where
  "zod_field data f =
     (case f of (k, t, optional) \<Rightarrow>
        (case map_of data k of
           None \<Rightarrow> if optional then ([], []) else ([ZodIssue k (ztype_name t) ''undefined''], [])
         | Some v \<Rightarrow>
             if parsed_type v = ztype_name t then ([], [(k, v)])
             else ([ZodIssue k (ztype_name t) (parsed_type v)], [])))"

text \<open>
  \<^verbatim>\<open>z.object(shape).parse(data)\<close>: every field of the shape is checked, in the
  shape's order; the result holds the fields of the shape that \<open>data\<close> has (unknown keys
  are stripped, an absent optional field stays absent); any issue throws a
  \<^verbatim>\<open>ZodError\<close> with all of them.
\<close>

definition zod_parse :: "zshape \<Rightarrow> js_object \<Rightarrow> js_error + js_object" where
  "zod_parse shape data =
     (let rs = map (zod_field data) shape;
          issues = concat (map fst rs)
      in if issues = [] then Inr (concat (map snd rs)) else Inl (ZodError issues))"

definition FindParksSchema :: zshape where
  "FindParksSchema =
     [(''stateCode'', ZString, True),
      (''q'', ZString, True),
      (''limit'', ZNumber, True),
      (''start'', ZNumber, True),
      (''activities'', ZString, True)]"

definition GetParkDetailsSchema :: zshape where
  "GetParkDetailsSchema = [(''parkCode'', ZString, False)]"

definition GetAlertsSchema :: zshape where
  "GetAlertsSchema =
     [(''parkCode'', ZString, True),
      (''limit'', ZNumber, True),
      (''start'', ZNumber, True),
      (''q'', ZString, True)]"

definition STATE_CODES :: "string list" where
  "STATE_CODES =
     [''AL'', ''AK'', ''AZ'', ''AR'', ''CA'', ''CO'', ''CT'', ''DE'', ''FL'', ''GA'',
      ''HI'', ''ID'', ''IL'', ''IN'', ''IA'', ''KS'', ''KY'', ''LA'', ''ME'', ''MD'',
      ''MA'', ''MI'', ''MN'', ''MS'', ''MO'', ''MT'', ''NE'', ''NV'', ''NH'', ''NJ'',
      ''NM'', ''NY'', ''NC'', ''ND'', ''OH'', ''OK'', ''OR'', ''PA'', ''RI'', ''SC'',
      ''SD'', ''TN'', ''TX'', ''UT'', ''VT'', ''VA'', ''WA'', ''WV'', ''WI'', ''WY'',
      ''DC'', ''AS'', ''GU'', ''MP'', ''PR'', ''VI'', ''UM'']"

section \<open>Upstream records\<close>

text \<open>
  The records of the NPS API that the normalizers read, with the fields they read. A
  well-formed record has every field, of the type given here (the API sends strings for
  coordinates and costs). Fields keep their upstream names; where two records share a
  name (\<^verbatim>\<open>name\<close>, \<^verbatim>\<open>description\<close>, \<^verbatim>\<open>title\<close>, \<^verbatim>\<open>url\<close>, \<^verbatim>\<open>type\<close>, \<^verbatim>\<open>cost\<close>,
  \<^verbatim>\<open>parkCode\<close>) the record's name is put in front. \<open>standardHours\<close> is an object
  from day names to hours; \<open>lastIndexedDate\<close> may be missing.
\<close>

record activity_record =
  activity_name :: string

record topic_record =
  topic_name :: string

record fee_record =
  fee_cost :: string
  fee_description :: string
  fee_title :: string

record hours_record =
  hours_name :: string
  hours_description :: string
  standardHours :: "(string \<times> string) list"

record phone_record =
  phone_type :: string
  phoneNumber :: string
  extension :: string
  phone_description :: string

record email_record =
  emailAddress :: string
  email_description :: string

record contacts_record =
  phoneNumbers :: "phone_record list"
  emailAddresses :: "email_record list"

record image_record =
  image_url :: string
  image_title :: string
  altText :: string
  caption :: string
  credit :: string

record address_record =
  address_type :: string
  line1 :: string
  line2 :: string
  city :: string
  stateCode :: string
  postalCode :: string

record park_record =
  fullName :: string
  parkCode :: string
  description :: string
  states :: string
  url :: string
  designation :: string
  activities :: "activity_record list"
  topics :: "topic_record list"
  weatherInfo :: string
  directionsInfo :: string
  directionsUrl :: string
  latitude :: string
  longitude :: string
  addresses :: "address_record list"
  entranceFees :: "fee_record list"
  entrancePasses :: "fee_record list"
  operatingHours :: "hours_record list"
  contacts :: contacts_record
  images :: "image_record list"

record alert_record =
  alert_title :: string
  alert_description :: string
  alert_parkCode :: string
  category :: string
  alert_url :: string
  lastIndexedDate :: "string option"

text \<open>
  The body of an upstream response: \<^verbatim>\<open>{total, limit, start, data}\<close>, the first three
  strings; \<open>data\<close> may be missing (\<open>None\<close>: the body has no such field. A body with
  \<^verbatim>\<open>data: null\<close> is not modelled; the code takes the same branches for it).
\<close>

record 'a api_response =
  resp_total :: string
  resp_limit :: string
  resp_start :: string
  resp_data :: "'a list option"

section \<open>Response normalizer\<close>

definition format_image :: "image_record \<Rightarrow> json" where
  "format_image img =
     JObj [(''url'', JStr (image_url img)),
           (''title'', JStr (image_title img)),
           (''altText'', JStr (altText img)),
           (''caption'', JStr (caption img)),
           (''credit'', JStr (credit img))]"

definition format_email :: "email_record \<Rightarrow> json" where
  "format_email email =
     JObj [(''address'', JStr (emailAddress email)),
           (''description'', JStr (email_description email))]"

text \<open>The body of the callback of \<^verbatim>\<open>formatParkData\<close>, for one park.\<close>

definition formatParkData_park :: "runtime \<Rightarrow> park_record \<Rightarrow> json" where
  "formatParkData_park rt park =
     JObj [
       (''name'', JStr (fullName park)),
       (''code'', JStr (parkCode park)),
       (''description'', JStr (description park)),
       (''states'', JArr (map (\<lambda>code. JStr (trim rt code)) (js_split CHR '','' (states park)))),
       (''url'', JStr (url park)),
       (''designation'', JStr (designation park)),
       (''activities'', JArr (map (\<lambda>activity. JStr (activity_name activity)) (activities park))),
       (''weatherInfo'', JStr (weatherInfo park)),
       (''location'', JObj [
          (''latitude'', JStr (latitude park)),
          (''longitude'', JStr (longitude park))]),
       (''entranceFees'', JArr (map (\<lambda>fee. JObj [
          (''cost'', JStr (fee_cost fee)),
          (''description'', JStr (fee_description fee)),
          (''title'', JStr (fee_title fee))]) (entranceFees park))),
       (''operatingHours'', JArr (map (\<lambda>hours. JObj [
          (''name'', JStr (hours_name hours)),
          (''description'', JStr (hours_description hours)),
          (''standardHours'', JObj (map (\<lambda>(day, h). (day, JStr h)) (standardHours hours)))])
          (operatingHours park))),
       (''contacts'', JObj [
          (''phoneNumbers'', JArr (map (\<lambda>phone. JObj [
             (''type'', JStr (phone_type phone)),
             (''number'', JStr (phoneNumber phone)),
             (''description'', JStr (phone_description phone))])
             (phoneNumbers (contacts park)))),
          (''emailAddresses'', JArr (map format_email (emailAddresses (contacts park))))]),
       (''images'', JArr (map format_image (images park)))]"

definition formatParkData :: "runtime \<Rightarrow> park_record list \<Rightarrow> json list" where
  "formatParkData rt parkData = map (formatParkData_park rt) parkData"

text \<open>
  \<^verbatim>\<open>day.charAt(0).toUpperCase() + day.slice(1)\<close>. \<^verbatim>\<open>charAt(0)\<close> is the first UTF-16
  code unit of the string: its first character when that has up to three bytes in UTF-8
  (\<open>charAt0_length\<close> bytes, by the leading byte). A first character of four bytes is a
  surrogate pair, \<^verbatim>\<open>charAt(0)\<close> is its first half, which \<^verbatim>\<open>toUpperCase\<close> leaves
  alone, and the string comes back unchanged.
\<close>

definition charAt0_length :: "string \<Rightarrow> nat" where
  "charAt0_length s =
     (case s of
        [] \<Rightarrow> 0
      | c # cs \<Rightarrow>
          if (of_char c :: nat) < 128 then 1
          else if (of_char c :: nat) < 224 then 2
          else if (of_char c :: nat) < 240 then 3
          else 4)"

definition properDay :: "runtime \<Rightarrow> string \<Rightarrow> string" where
  "properDay rt day =
     (if charAt0_length day = 4 then day
      else toUpperCase rt (take (charAt0_length day) day) @ drop (charAt0_length day) day)"

text \<open>
  The line \<^verbatim>\<open>`${properDay}: ${hours || 'Closed'}`\<close> of \<^verbatim>\<open>formatParkDetails\<close>, over
  \<^verbatim>\<open>Object.entries(standardHours)\<close>.
\<close>

definition formattedStandardHours :: "runtime \<Rightarrow> (string \<times> string) list \<Rightarrow> json list" where
  "formattedStandardHours rt standardHours' =
     map (\<lambda>(day, hours). JStr (properDay rt day @ '': '' @ (if hours \<noteq> [] then hours else ''Closed'')))
       (js_entries standardHours')"

text \<open>
  \<^verbatim>\<open>park.addresses.find(addr => addr.type === 'Physical') || park.addresses[0]\<close>:
  \<open>None\<close> is \<^verbatim>\<open>undefined\<close> (an address is an object, so it is truthy).
\<close>

definition physicalAddress :: "park_record \<Rightarrow> address_record option" where
  "physicalAddress park =
     (case find (\<lambda>addr. address_type addr = ''Physical'') (addresses park) of
        Some addr \<Rightarrow> Some addr
      | None \<Rightarrow> (case addresses park of [] \<Rightarrow> None | addr # rest \<Rightarrow> Some addr))"

definition formatParkDetails :: "runtime \<Rightarrow> park_record \<Rightarrow> json" where
  "formatParkDetails rt park =
     JObj [
       (''name'', JStr (fullName park)),
       (''code'', JStr (parkCode park)),
       (''url'', JStr (url park)),
       (''description'', JStr (description park)),
       (''designation'', JStr (designation park)),
       (''states'', JArr (map (\<lambda>code. JStr (trim rt code)) (js_split CHR '','' (states park)))),
       (''weatherInfo'', JStr (weatherInfo park)),
       (''directionsInfo'', JStr (directionsInfo park)),
       (''directionsUrl'', JStr (directionsUrl park)),
       (''location'', JObj [
          (''latitude'', JStr (latitude park)),
          (''longitude'', JStr (longitude park)),
          (''address'', (case physicalAddress park of
             Some a \<Rightarrow> JObj [
               (''line1'', JStr (line1 a)),
               (''line2'', JStr (line2 a)),
               (''city'', JStr (city a)),
               (''stateCode'', JStr (stateCode a)),
               (''postalCode'', JStr (postalCode a))]
           | None \<Rightarrow> JUndefined))]),
       (''contacts'', JObj [
          (''phoneNumbers'', JArr (map (\<lambda>phone. JObj [
             (''type'', JStr (phone_type phone)),
             (''number'', JStr (phoneNumber phone)),
             (''extension'', JStr (extension phone)),
             (''description'', JStr (phone_description phone))])
             (phoneNumbers (contacts park)))),
          (''emailAddresses'', JArr (map format_email (emailAddresses (contacts park))))]),
       (''entranceFees'', JArr (map (\<lambda>fee. JObj [
          (''title'', JStr (fee_title fee)),
          (''cost'', JStr (''$'' @ fee_cost fee)),
          (''description'', JStr (fee_description fee))]) (entranceFees park))),
       (''entrancePasses'', JArr (map (\<lambda>pass. JObj [
          (''title'', JStr (fee_title pass)),
          (''cost'', JStr (''$'' @ fee_cost pass)),
          (''description'', JStr (fee_description pass))]) (entrancePasses park))),
       (''operatingHours'', JArr (map (\<lambda>hours. JObj [
          (''name'', JStr (hours_name hours)),
          (''description'', JStr (hours_description hours)),
          (''standardHours'', JArr (formattedStandardHours rt (standardHours hours)))])
          (operatingHours park))),
       (''topics'', JArr (map (\<lambda>topic. JStr (topic_name topic)) (topics park))),
       (''activities'', JArr (map (\<lambda>activity. JStr (activity_name activity)) (activities park))),
       (''images'', JArr (map format_image (images park)))]"

text \<open>
  The relabelling of an alert's category in \<^verbatim>\<open>formatAlertData\<close>: the chain of
  \<^verbatim>\<open>if ... else if\<close> on \<^verbatim>\<open>alertType\<close>.
\<close>

definition alertType :: "string \<Rightarrow> string" where
  "alertType category' =
     (if category' = ''Information'' then ''Information (non-emergency)''
      else if category' = ''Caution'' then ''Caution (potential hazard)''
      else if category' = ''Danger'' then ''Danger (significant hazard)''
      else if category' = ''Park Closure'' then ''Park Closure (area inaccessible)''
      else category')"

text \<open>
  The body of the callback of \<^verbatim>\<open>formatAlertData\<close>, for one alert.
  \<^verbatim>\<open>new Date(s).toLocaleDateString()\<close> depends on the locale and the time zone of the
  process; it is the parameter \<open>toLocaleDateString\<close>.
\<close>

definition formatAlertData_alert :: "(string \<Rightarrow> string) \<Rightarrow> alert_record \<Rightarrow> json" where
  "formatAlertData_alert toLocaleDateString alert =
     (let lastUpdated =
            (case lastIndexedDate alert of
               Some d \<Rightarrow> if d \<noteq> [] then toLocaleDateString d else ''Unknown''
             | None \<Rightarrow> ''Unknown'')
      in JObj [
           (''title'', JStr (alert_title alert)),
           (''description'', JStr (alert_description alert)),
           (''parkCode'', JStr (alert_parkCode alert)),
           (''type'', JStr (alertType (category alert))),
           (''url'', JStr (alert_url alert)),
           (''lastUpdated'', JStr lastUpdated)])"

definition formatAlertData :: "(string \<Rightarrow> string) \<Rightarrow> alert_record list \<Rightarrow> json list" where
  "formatAlertData toLocaleDateString alertData =
     map (formatAlertData_alert toLocaleDateString) alertData"

section \<open>Upstream data gateway\<close>

text \<open>
  The NPS API is outside the program: \<open>api_parks\<close> and \<open>api_alerts\<close> say what a
  \<^verbatim>\<open>GET /parks\<close> and a \<^verbatim>\<open>GET /alerts\<close> with given query parameters answer, the body
  of the response or the error axios rejects with. \<open>locale_date\<close> is
  \<^verbatim>\<open>new Date(s).toLocaleDateString()\<close> in the process's locale, and \<open>runtime\<close> holds
  the built-ins of the JavaScript engine that are parameters.
\<close>

record env =
  api_parks :: "js_object \<Rightarrow> js_error + park_record api_response"
  api_alerts :: "js_object \<Rightarrow> js_error + alert_record api_response"
  locale_date :: "string \<Rightarrow> string"
  runtime :: runtime

text \<open>An outbound call: the path and the \<^verbatim>\<open>params\<close> object given to \<^verbatim>\<open>api.get\<close>.\<close>

type_synonym http_call = "string \<times> js_object"

text \<open>
  The methods of \<^verbatim>\<open>NPSApiClient\<close> the handlers use. Each issues one GET and returns
  the body, or logs and rethrows the error. The result is paired with the calls made.
\<close>

definition npsApiClient_getParks ::
  "env \<Rightarrow> js_object \<Rightarrow> http_call list \<times> (js_error + park_record api_response)" where
  "npsApiClient_getParks e params = ([(''/parks'', params)], api_parks e params)"

definition npsApiClient_getParkByCode ::
  "env \<Rightarrow> json \<Rightarrow> http_call list \<times> (js_error + park_record api_response)" where
  "npsApiClient_getParkByCode e parkCode' =
     (let params = [(''parkCode'', parkCode'), (''limit'', JNum 1)]
      in ([(''/parks'', params)], api_parks e params))"

definition npsApiClient_getAlerts ::
  "env \<Rightarrow> js_object \<Rightarrow> http_call list \<times> (js_error + alert_record api_response)" where
  "npsApiClient_getAlerts e params = ([(''/alerts'', params)], api_alerts e params)"

section \<open>Tool-call handler\<close>

text \<open>
  A response of the handler is \<^verbatim>\<open>{content: [...]}\<close>; a block of the content is
  \<^verbatim>\<open>{type, text}\<close>. The text is always the value of a call of
  \<^verbatim>\<open>JSON.stringify\<close>: \<open>JSON_stringify v None\<close> is \<^verbatim>\<open>JSON.stringify(v)\<close>, the compact
  form, and \<open>JSON_stringify v (Some n)\<close> is \<^verbatim>\<open>JSON.stringify(v, null, n)\<close>, indented
  by \<open>n\<close> spaces.
\<close>

datatype json_text = JSON_stringify json "nat option"

record content_block =
  block_type :: string
  block_text :: json_text

type_synonym tool_response = "content_block list"

record request =
  params_name :: string
  params_arguments :: "js_object option"

definition text_block :: "json_text \<Rightarrow> content_block" where
  "text_block t = \<lparr>block_type = ''text'', block_text = t\<rparr>"

text \<open>
  \<^verbatim>\<open>args.stateCode.split(',').map(s => s.trim().toUpperCase())\<close> and the filter on it.
\<close>

definition providedStates :: "runtime \<Rightarrow> string \<Rightarrow> string list" where
  "providedStates rt stateCode' =
     map (\<lambda>s. toUpperCase rt (trim rt s)) (js_split CHR '','' stateCode')"

definition invalidStates :: "runtime \<Rightarrow> string \<Rightarrow> string list" where
  "invalidStates rt stateCode' =
     filter (\<lambda>state. state \<notin> set STATE_CODES) (providedStates rt stateCode')"

text \<open>
  \<^verbatim>\<open>Math.min(v, m)\<close> for a number \<open>v\<close>. (After schema validation \<^verbatim>\<open>args.limit\<close> is a
  number or absent, and the call is made only when it is truthy; the last equation is
  never reached.)
\<close>

fun Math_min :: "json \<Rightarrow> rat \<Rightarrow> json" where
  "Math_min (JNum n) m = JNum (min n m)"
| "Math_min JInfinity m = JNum m"
| "Math_min JNegInfinity m = JNegInfinity"
| "Math_min v m = JNaN"

text \<open>\<^verbatim>\<open>const limit = args.limit ? Math.min(args.limit, 50) : 10\<close>.\<close>

definition limit :: "js_object \<Rightarrow> json" where
  "limit args =
     (if truthy (js_get args ''limit'') then Math_min (js_get args ''limit'') 50 else JNum 10)"

text \<open>\<^verbatim>\<open>const requestParams = { limit, ...args }\<close>.\<close>

definition requestParams :: "js_object \<Rightarrow> js_object" where
  "requestParams args = js_spread [(''limit'', limit args)] args"

text \<open>
  Reading a missing \<^verbatim>\<open>response.data\<close> into a normalizer: \<^verbatim>\<open>undefined.map\<close> throws
  a TypeError, with this message.
\<close>

definition undefined_map :: js_error where
  "undefined_map = TypeError ''Cannot read properties of undefined (reading 'map')''"

text \<open>
  The block \<^verbatim>\<open>if (args.stateCode) { ... }\<close> of the \<^verbatim>\<open>findParks\<close> case: the invalid
  state codes of a truthy \<^verbatim>\<open>stateCode\<close>, none when the argument is absent or empty.
\<close>

definition validation_errors :: "runtime \<Rightarrow> js_object \<Rightarrow> string list" where
  "validation_errors rt args =
     (case js_get args ''stateCode'' of
        JStr stateCode' \<Rightarrow> if stateCode' \<noteq> [] then invalidStates rt stateCode' else []
      | other \<Rightarrow> [])"

definition findParks :: "env \<Rightarrow> js_object \<Rightarrow> http_call list \<times> (js_error + tool_response)" where
  "findParks e arguments =
     (case zod_parse FindParksSchema arguments of
        Inl err \<Rightarrow> ([], Inl err)
      | Inr args \<Rightarrow>
          (let invalid = validation_errors (runtime e) args
           in if length invalid > 0 then
                ([], Inr [text_block (JSON_stringify (JObj [
                   (''error'', JStr (''Invalid state code(s): '' @ js_join '', '' invalid)),
                   (''validStateCodes'', JArr (map JStr STATE_CODES))]) None)])
              else
                (case npsApiClient_getParks e (requestParams args) of
                   (calls, Inl err) \<Rightarrow> (calls, Inl err)
                 | (calls, Inr response) \<Rightarrow>
                     (case resp_data response of
                        None \<Rightarrow> (calls, Inl undefined_map)
                      | Some parkData \<Rightarrow>
                          (calls, Inr [text_block (JSON_stringify (JObj [
                             (''total'', parseInt (runtime e) (resp_total response)),
                             (''limit'', parseInt (runtime e) (resp_limit response)),
                             (''start'', parseInt (runtime e) (resp_start response)),
                             (''parks'', JArr (formatParkData (runtime e) parkData))]) (Some 2))])))))"

text \<open>
  The string a value has in a template literal \<^verbatim>\<open>`${v}`\<close> and as the key of
  \<^verbatim>\<open>obj[v]\<close>. (Both uses are on a string: a validated \<^verbatim>\<open>parkCode\<close> argument and the
  park code of a normalized alert. The decimal form of a number and the form of an array
  are not modelled; for them only that the result is a string matters.)
\<close>

fun js_to_string :: "json \<Rightarrow> string" where
  "js_to_string (JStr s) = s"
| "js_to_string JUndefined = ''undefined''"
| "js_to_string JNull = ''null''"
| "js_to_string (JBool b) = (if b then ''true'' else ''false'')"
| "js_to_string JNaN = ''NaN''"
| "js_to_string JInfinity = ''Infinity''"
| "js_to_string JNegInfinity = ''-Infinity''"
| "js_to_string v = ''[object Object]''"

definition park_not_found :: "js_object \<Rightarrow> tool_response" where
  "park_not_found args =
     [text_block (JSON_stringify (JObj [
        (''error'', JStr ''Park not found''),
        (''message'', JStr (''No park found with park code: '' @ js_to_string (js_get args ''parkCode'')))])
        (Some 2))]"

definition getParkDetails :: "env \<Rightarrow> js_object \<Rightarrow> http_call list \<times> (js_error + tool_response)" where
  "getParkDetails e arguments =
     (case zod_parse GetParkDetailsSchema arguments of
        Inl err \<Rightarrow> ([], Inl err)
      | Inr args \<Rightarrow>
          (case npsApiClient_getParkByCode e (js_get args ''parkCode'') of
             (calls, Inl err) \<Rightarrow> (calls, Inl err)
           | (calls, Inr response) \<Rightarrow>
               (case resp_data response of
                  None \<Rightarrow> (calls, Inr (park_not_found args))
                | Some parkData \<Rightarrow>
                    if length parkData = 0 then (calls, Inr (park_not_found args))
                    else (calls, Inr [text_block
                            (JSON_stringify (formatParkDetails (runtime e) (hd parkData)) (Some 2))]))))"

text \<open>
  The names \<^verbatim>\<open>Object.prototype\<close> provides to the object literal \<^verbatim>\<open>{}\<close>: reading one of
  them from the empty \<^verbatim>\<open>alertsByPark\<close> gives a function (or, for \<^verbatim>\<open>__proto__\<close>, the
  prototype itself), a truthy value without a \<^verbatim>\<open>push\<close> method.
\<close>

definition Object_prototype_keys :: "string list" where
  "Object_prototype_keys =
     [''constructor'', ''__defineGetter__'', ''__defineSetter__'', ''hasOwnProperty'',
      ''__lookupGetter__'', ''__lookupSetter__'', ''isPrototypeOf'', ''propertyIsEnumerable'',
      ''toString'', ''valueOf'', ''__proto__'', ''toLocaleString'']"

text \<open>
  The loop \<^verbatim>\<open>formattedAlerts.forEach(alert => { if (!alertsByPark[alert.parkCode])
  alertsByPark[alert.parkCode] = []; alertsByPark[alert.parkCode].push(alert); })\<close>,
  from the object built so far. An own property is an array (truthy, also when empty),
  and the alert is pushed onto it; a key inherited from \<^verbatim>\<open>Object.prototype\<close> is
  truthy too, and the \<^verbatim>\<open>push\<close> on it throws; any other key is created, last, with
  the empty array, onto which the alert is pushed.
\<close>

fun alertsByPark_forEach ::
  "(string \<times> json list) list \<Rightarrow> json list \<Rightarrow> js_error + (string \<times> json list) list" where
  "alertsByPark_forEach obj [] = Inr obj"
| "alertsByPark_forEach obj (alert # rest) =
     (let k = js_to_string (js_field alert ''parkCode'')
      in case map_of obj k of
           Some arr \<Rightarrow> alertsByPark_forEach (js_set obj k (arr @ [alert])) rest
         | None \<Rightarrow>
             if k \<in> set Object_prototype_keys
             then Inl (TypeError ''alertsByPark[alert.parkCode].push is not a function'')
             else alertsByPark_forEach (js_set obj k [alert]) rest)"

definition getAlerts :: "env \<Rightarrow> js_object \<Rightarrow> http_call list \<times> (js_error + tool_response)" where
  "getAlerts e arguments =
     (case zod_parse GetAlertsSchema arguments of
        Inl err \<Rightarrow> ([], Inl err)
      | Inr args \<Rightarrow>
          (case npsApiClient_getAlerts e (requestParams args) of
             (calls, Inl err) \<Rightarrow> (calls, Inl err)
           | (calls, Inr response) \<Rightarrow>
               (case resp_data response of
                  None \<Rightarrow> (calls, Inl undefined_map)
                | Some alertData \<Rightarrow>
                    (let formattedAlerts = formatAlertData (locale_date e) alertData
                     in case alertsByPark_forEach [] formattedAlerts of
                          Inl err \<Rightarrow> (calls, Inl err)
                        | Inr alertsByPark \<Rightarrow>
                            (calls, Inr [text_block (JSON_stringify (JObj [
                               (''total'', parseInt (runtime e) (resp_total response)),
                               (''limit'', parseInt (runtime e) (resp_limit response)),
                               (''start'', parseInt (runtime e) (resp_start response)),
                               (''alerts'', JArr formattedAlerts),
                               (''alertsByPark'',
                                  JObj (map (\<lambda>(k, arr). (k, JArr arr)) alertsByPark))])
                               (Some 2))])))))"

text \<open>The body of the \<^verbatim>\<open>try\<close> block of the handler.\<close>

definition call_tool_try :: "env \<Rightarrow> request \<Rightarrow> http_call list \<times> (js_error + tool_response)" where
  "call_tool_try e req =
     (case params_arguments req of
        None \<Rightarrow> ([], Inl (Error ''Arguments are required''))
      | Some arguments \<Rightarrow>
          if params_name req = ''findParks'' then findParks e arguments
          else if params_name req = ''getParkDetails'' then getParkDetails e arguments
          else if params_name req = ''getAlerts'' then getAlerts e arguments
          else ([], Inl (Error (''Unknown tool: '' @ params_name req))))"

text \<open>
  The \<^verbatim>\<open>errors\<close> of a \<^verbatim>\<open>ZodError\<close> as they are serialised, and
  \<^verbatim>\<open>error instanceof Error ? error.message : 'Unknown error'\<close>.
\<close>

definition issue_json :: "zod_issue \<Rightarrow> json" where
  "issue_json i =
     JObj [(''code'', JStr ''invalid_type''),
           (''expected'', JStr (issue_expected i)),
           (''received'', JStr (issue_received i)),
           (''path'', JArr [JStr (issue_path i)]),
           (''message'', JStr (if issue_received i = ''undefined'' then ''Required''
              else ''Expected '' @ issue_expected i @ '', received '' @ issue_received i))]"

definition server_error :: "string \<Rightarrow> tool_response" where
  "server_error message =
     [text_block (JSON_stringify (JObj [
        (''error'', JStr ''Server error''),
        (''message'', JStr message)]) (Some 2))]"

text \<open>The \<^verbatim>\<open>catch\<close> block of the handler. It has no \<^verbatim>\<open>throw\<close>.\<close>

fun call_tool_catch :: "js_error \<Rightarrow> tool_response" where
  "call_tool_catch (ZodError issues) =
     [text_block (JSON_stringify (JObj [
        (''error'', JStr ''Validation error''),
        (''details'', JArr (map issue_json issues))]) (Some 2))]"
| "call_tool_catch (Error message) = server_error message"
| "call_tool_catch (TypeError message) = server_error message"
| "call_tool_catch NonError = server_error ''Unknown error''"

text \<open>
  The handler of a tool call: the \<^verbatim>\<open>try\<close> block, and the \<^verbatim>\<open>catch\<close> block on what it
  throws. \<open>Inl\<close> would be an exception that leaves the handler.
\<close>

definition call_tool :: "env \<Rightarrow> request \<Rightarrow> http_call list \<times> (js_error + tool_response)" where
  "call_tool e req =
     (case call_tool_try e req of
        (calls, Inl error) \<Rightarrow> (calls, Inr (call_tool_catch error))
      | (calls, Inr response) \<Rightarrow> (calls, Inr response))"

section \<open>Notions of the specification\<close>

text \<open>
  The keys of a grouping in the order of their first occurrence, as the specification
  words it: a key is listed where it occurs first, and never again.
\<close>

fun first_occurrences :: "string list \<Rightarrow> string list" where
  "first_occurrences [] = []"
| "first_occurrences (k # ks) = k # filter (\<lambda>k'. k' \<noteq> k) (first_occurrences ks)"

text \<open>The park code of a normalized alert, as the key of the grouping.\<close>

definition alert_key :: "json \<Rightarrow> string" where
  "alert_key alert = js_to_string (js_field alert ''parkCode'')"

text \<open>The dictionary of alert categories, as the specification lists it.\<close>

definition category_labels :: "(string \<times> string) list" where
  "category_labels =
     [(''Information'', ''Information (non-emergency)''),
      (''Caution'', ''Caution (potential hazard)''),
      (''Danger'', ''Danger (significant hazard)''),
      (''Park Closure'', ''Park Closure (area inaccessible)'')]"





text \<open>
  The address of a normalized park detail, \<^verbatim>\<open>location.address\<close>, and the object the
  detail mapping is to build from an address entry.
\<close>

definition location_address :: "json \<Rightarrow> json" where
  "location_address detail = js_field (js_field detail ''location'') ''address''"

definition address_object :: "address_record \<Rightarrow> json" where
  "address_object a =
     JObj [(''line1'', JStr (line1 a)),
           (''line2'', JStr (line2 a)),
           (''city'', JStr (city a)),
           (''stateCode'', JStr (stateCode a)),
           (''postalCode'', JStr (postalCode a))]"

section \<open>Stub upstreams\<close>

text \<open>
  Concrete records and upstreams on which the theorems below are instantiated: a park
  with a mailing and a physical address, five alerts for two parks, and an upstream
  that answers every request with given records and a given \<^verbatim>\<open>total\<close>.
\<close>

definition yellowstone :: park_record where
  "yellowstone =
     \<lparr>fullName = ''Yellowstone National Park'',
      parkCode = ''yell'',
      description = ''The first national park.'',
      states = ''ID, MT,WY'',
      url = ''https://www.nps.gov/yell/index.htm'',
      designation = ''National Park'',
      activities = [\<lparr>activity_name = ''Hiking''\<rparr>, \<lparr>activity_name = ''Fishing''\<rparr>],
      topics = [\<lparr>topic_name = ''Geysers''\<rparr>],
      weatherInfo = ''Unpredictable.'',
      directionsInfo = ''Five entrances.'',
      directionsUrl = ''http://www.nps.gov/yell/planyourvisit/directions.htm'',
      latitude = ''44.59824417'',
      longitude = ''-110.5471695'',
      addresses =
        [\<lparr>address_type = ''Mailing'', line1 = ''PO Box 168'', line2 = [],
          city = ''Yellowstone National Park'', stateCode = ''WY'', postalCode = ''82190-0168''\<rparr>,
         \<lparr>address_type = ''Physical'', line1 = ''2 Officers Row'', line2 = ''Headquarters'',
          city = ''Yellowstone National Park'', stateCode = ''WY'', postalCode = ''82190''\<rparr>],
      entranceFees = [\<lparr>fee_cost = ''35.00'', fee_description = ''7-day pass'', fee_title = ''Private Vehicle''\<rparr>],
      entrancePasses = [\<lparr>fee_cost = ''70.00'', fee_description = ''Annual'', fee_title = ''Annual Pass''\<rparr>],
      operatingHours =
        [\<lparr>hours_name = ''Park'', hours_description = ''Open all year'',
          standardHours = [(''monday'', ''All Day''), (''sunday'', [])]\<rparr>],
      contacts =
        \<lparr>phoneNumbers = [\<lparr>phone_type = ''Voice'', phoneNumber = ''3073447381'',
                          extension = [], phone_description = []\<rparr>],
         emailAddresses = [\<lparr>emailAddress = ''yell_info@nps.gov'', email_description = []\<rparr>]\<rparr>,
      images = [\<lparr>image_url = ''https://www.nps.gov/geyser.jpg'', image_title = ''Geyser'',
                altText = ''A geyser'', caption = ''Old Faithful'', credit = ''NPS''\<rparr>]\<rparr>"

definition stub_alert :: "string \<Rightarrow> string \<Rightarrow> string \<Rightarrow> alert_record" where
  "stub_alert code title' category' =
     \<lparr>alert_title = title', alert_description = [], alert_parkCode = code,
      category = category', alert_url = [], lastIndexedDate = Some ''2024-05-01 12:00:00.0''\<rparr>"

definition five_alerts :: "alert_record list" where
  "five_alerts =
     [stub_alert ''yose'' ''Road closed'' ''Park Closure'',
      stub_alert ''grca'' ''Heat'' ''Danger'',
      stub_alert ''yose'' ''Bears'' ''Caution'',
      stub_alert ''yose'' ''Shuttle'' ''Information'',
      stub_alert ''grca'' ''Elk'' ''Wildlife'']"

text \<open>
  A runtime to instantiate the theorems on: the built-ins restricted to ASCII, where
  they agree with those of every JavaScript engine on the ASCII strings used below. White
  space is space, tab, line feed, vertical tab, form feed and carriage return; the
  letters \<^verbatim>\<open>a\<close> to \<^verbatim>\<open>z\<close> are the only ones with an upper case; a numeral above \<open>2^53\<close>
  is read as infinite.
\<close>

definition is_ascii_whitespace :: "char \<Rightarrow> bool" where
  "is_ascii_whitespace c = (c \<in> set [CHR '' '', CHR 0x09, CHR 0x0A, CHR 0x0B, CHR 0x0C, CHR 0x0D])"

definition ascii_trimStart :: "string \<Rightarrow> string" where
  "ascii_trimStart s = dropWhile is_ascii_whitespace s"

definition ascii_trim :: "string \<Rightarrow> string" where
  "ascii_trim s = rev (dropWhile is_ascii_whitespace (rev (dropWhile is_ascii_whitespace s)))"

definition ascii_toUpperCase_char :: "char \<Rightarrow> char" where
  "ascii_toUpperCase_char c =
     (case map_of (zip ''abcdefghijklmnopqrstuvwxyz'' ''ABCDEFGHIJKLMNOPQRSTUVWXYZ'') c of
        Some u \<Rightarrow> u
      | None \<Rightarrow> c)"

definition ascii_toUpperCase :: "string \<Rightarrow> string" where
  "ascii_toUpperCase s = map ascii_toUpperCase_char s"

definition stub_runtime :: runtime where
  "stub_runtime =
     \<lparr>trim = ascii_trim,
      toUpperCase = ascii_toUpperCase,
      trimStart = ascii_trimStart,
      parseInt_large = (\<lambda>s. JInfinity)\<rparr>"

definition stub_env :: "string \<Rightarrow> park_record list \<Rightarrow> alert_record list \<Rightarrow> env" where
  "stub_env total' parkData alertData =
     \<lparr>api_parks = (\<lambda>params. Inr \<lparr>resp_total = total', resp_limit = ''10'', resp_start = ''0'',
                                   resp_data = Some parkData\<rparr>),
      api_alerts = (\<lambda>params. Inr \<lparr>resp_total = total', resp_limit = ''10'', resp_start = ''0'',
                                    resp_data = Some alertData\<rparr>),
      locale_date = (\<lambda>d. take 10 d),
      runtime = stub_runtime\<rparr>"

section \<open>Properties of the built-ins\<close>

text \<open>
  Splitting on a separator loses nothing and keeps the order: joining the pieces with
  the separator gives the string back, and no piece holds the separator.
\<close>

lemma js_split_nonempty: "js_split sep s \<noteq> []"
  by (induction s) auto

lemma js_join_Cons: "ts \<noteq> [] \<Longrightarrow> js_join sep (t # ts) = t @ sep @ js_join sep ts"
  by (cases ts) auto

lemma js_join_split: "js_join [sep] (js_split sep s) = s"
proof (induction s)
  case Nil
  then show ?case by simp
next
  case (Cons c cs)
  obtain t ts where ts: "js_split sep cs = t # ts"
    using js_split_nonempty [of sep cs] by (cases "js_split sep cs") auto
  show ?case
  proof (cases "c = sep")
    case True
    then show ?thesis using Cons js_split_nonempty [of sep cs] by (simp add: js_join_Cons)
  next
    case False
    then show ?thesis using Cons ts by (cases ts) auto
  qed
qed

lemma js_split_no_sep: "list_all (\<lambda>t. sep \<notin> set t) (js_split sep s)"
proof (induction s)
  case Nil
  then show ?case by simp
next
  case (Cons c cs)
  then show ?case using js_split_nonempty [of sep cs]
    by (cases "js_split sep cs") auto
qed

lemma length_js_split: "length (js_split sep s) = Suc (count_list s sep)"
  using js_split_nonempty [of sep] by (induction s) auto

section \<open>Properties of schema validation\<close>

lemma zod_fields_map_of:
  "concat (map (\<lambda>f. fst (zod_field data f)) shape) = [] \<Longrightarrow>
   map_of (concat (map (\<lambda>f. snd (zod_field data f)) shape)) k =
     (if k \<in> fst ` set shape then map_of data k else None)"
proof (induction shape)
  case Nil
  then show ?case by simp
next
  case (Cons f shape)
  obtain k' t opt where f: "f = (k', t, opt)" by (cases f) auto
  from Cons.prems have rest: "concat (map (\<lambda>f. fst (zod_field data f)) shape) = []"
    and here: "fst (zod_field data f) = []" by auto
  show ?case
    using Cons.IH [OF rest] here
    by (auto simp: f zod_field_def split: option.splits if_splits)
qed

lemma zod_parse_Inr:
  assumes "zod_parse shape data = Inr args"
  shows "args = concat (map (\<lambda>f. snd (zod_field data f)) shape)"
    and "concat (map (\<lambda>f. fst (zod_field data f)) shape) = []"
  using assms by (auto simp: zod_parse_def Let_def comp_def split: if_splits)

lemma zod_parse_get:
  assumes "zod_parse shape data = Inr args"
  shows "js_get args k = (if k \<in> fst ` set shape then js_get data k else JUndefined)"
  using zod_fields_map_of [OF zod_parse_Inr(2) [OF assms], of k] zod_parse_Inr(1) [OF assms]
  by (simp add: js_get_def)

lemma zod_field_keys: "fst ` set (snd (zod_field data f)) \<subseteq> {fst f}"
  by (cases f) (auto simp: zod_field_def split: option.splits if_splits)

lemma zod_fields_keys:
  "fst ` set (concat (map (\<lambda>f. snd (zod_field data f)) shape)) \<subseteq> fst ` set shape"
proof (induction shape)
  case Nil
  then show ?case by simp
next
  case (Cons f shape)
  show ?case using Cons zod_field_keys [of data f] by (simp add: image_Un) blast
qed

lemma zod_fields_distinct:
  "distinct (map fst shape) \<Longrightarrow> distinct (map fst (concat (map (\<lambda>f. snd (zod_field data f)) shape)))"
proof (induction shape)
  case Nil
  then show ?case by simp
next
  case (Cons f shape)
  obtain k' t opt where f: "f = (k', t, opt)" by (cases f) auto
  have "k' \<notin> fst ` set shape" using Cons.prems by (auto simp: f)
  then have "k' \<notin> fst ` set (concat (map (\<lambda>f. snd (zod_field data f)) shape))"
    using zod_fields_keys [of data shape] by blast
  then show ?case using Cons by (auto simp: f zod_field_def split: option.splits)
qed

lemma zod_fields_typed:
  "concat (map (\<lambda>f. fst (zod_field data f)) shape) = [] \<Longrightarrow> (k, t, opt) \<in> set shape \<Longrightarrow>
   map_of data k = Some v \<Longrightarrow> parsed_type v = ztype_name t"
  by (induction shape) (auto simp: zod_field_def split: option.splits if_splits)

lemma parsed_type_string: "parsed_type v = ''string'' \<Longrightarrow> \<exists>s. v = JStr s"
  by (cases v) auto

section \<open>Properties of objects and of the request parameters\<close>

lemma map_of_js_set: "map_of (js_set obj k v) k' = (if k' = k then Some v else map_of obj k')"
  by (induction obj) auto

lemma js_set_absent: "k \<notin> fst ` set obj \<Longrightarrow> js_set obj k v = obj @ [(k, v)]"
  by (induction obj) auto

lemma js_set_keys: "map fst (js_set obj k v) = (if k \<in> set (map fst obj) then map fst obj else map fst obj @ [k])"
  by (induction obj) force+

lemma js_entries_plain:
  assumes "\<forall>k \<in> fst ` set obj. \<not> is_array_index k"
  shows "js_entries obj = obj"
proof -
  have "filter (\<lambda>(k, v). is_array_index k) obj = []"
    using assms by (auto simp: filter_empty_conv)
  moreover have "filter (\<lambda>(k, v). \<not> is_array_index k) obj = obj"
    using assms by (auto simp: filter_id_conv)
  ultimately show ?thesis by (simp add: js_entries_def)
qed

lemma map_of_foldl_js_set:
  "distinct (map fst xs) \<Longrightarrow>
   map_of (foldl (\<lambda>obj (k, v). js_set obj k v) t xs) k =
     (case map_of xs k of Some v \<Rightarrow> Some v | None \<Rightarrow> map_of t k)"
proof (induction xs arbitrary: t)
  case Nil
  then show ?case by simp
next
  case (Cons x xs)
  obtain k0 v0 where x: "x = (k0, v0)" by (cases x) auto
  have "map_of xs k0 = None" using Cons.prems by (auto simp: x map_of_eq_None_iff)
  then show ?case using Cons by (auto simp: x map_of_js_set split: option.splits)
qed

lemma schema_keys_plain:
  "\<not> is_array_index ''stateCode''" "\<not> is_array_index ''q''" "\<not> is_array_index ''limit''"
  "\<not> is_array_index ''start''" "\<not> is_array_index ''activities''" "\<not> is_array_index ''parkCode''"
  by (simp_all add: is_array_index_def is_radix_digit_def digit_value_def)

lemma FindParksSchema_keys:
  "fst ` set FindParksSchema = {''stateCode'', ''q'', ''limit'', ''start'', ''activities''}"
  by (auto simp: FindParksSchema_def)

lemma GetAlertsSchema_keys:
  "fst ` set GetAlertsSchema = {''parkCode'', ''limit'', ''start'', ''q''}"
  by (auto simp: GetAlertsSchema_def)

lemma requestParams_get:
  assumes "zod_parse shape data = Inr args" and "distinct (map fst shape)"
    and "\<forall>k \<in> fst ` set shape. \<not> is_array_index k"
  shows "js_get (requestParams args) k =
           (if k \<in> fst ` set shape \<and> map_of data k \<noteq> None then js_get data k
            else if k = ''limit'' then limit args else JUndefined)"
proof -
  have args: "args = concat (map (\<lambda>f. snd (zod_field data f)) shape)"
    using zod_parse_Inr(1) [OF assms(1)] .
  have keys: "fst ` set args \<subseteq> fst ` set shape"
    unfolding args by (rule zod_fields_keys)
  have plain: "js_entries args = args"
    using keys assms(3) by (intro js_entries_plain) blast
  have dist: "distinct (map fst args)"
    unfolding args using assms(2) by (rule zod_fields_distinct)
  have m: "map_of args k = (if k \<in> fst ` set shape then map_of data k else None)"
    unfolding args using zod_parse_Inr(2) [OF assms(1)] by (rule zod_fields_map_of)
  show ?thesis
    using map_of_foldl_js_set [OF dist, of "[(''limit'', limit args)]" k] m
    by (auto simp: requestParams_def js_spread_def plain js_get_def split: option.splits)
qed

section \<open>The handlers, case by case\<close>

lemma FindParksSchema_ok: "distinct (map fst FindParksSchema)" "\<forall>k \<in> fst ` set FindParksSchema. \<not> is_array_index k"
  by (simp_all add: FindParksSchema_def schema_keys_plain)

lemma GetAlertsSchema_ok: "distinct (map fst GetAlertsSchema)" "\<forall>k \<in> fst ` set GetAlertsSchema. \<not> is_array_index k"
  by (simp_all add: GetAlertsSchema_def schema_keys_plain)

text \<open>The limit that reaches the upstream: the caller's own, whenever there is one.\<close>

lemma findParks_forwarded_limit:
  assumes "zod_parse FindParksSchema arguments = Inr args"
  shows "js_get (requestParams args) ''limit'' =
           (case map_of arguments ''limit'' of Some v \<Rightarrow> v | None \<Rightarrow> JNum 10)"
proof -
  have g: "js_get args ''limit'' = js_get arguments ''limit''"
    using zod_parse_get [OF assms, of "''limit''"] by (simp add: FindParksSchema_keys)
  show ?thesis
    using requestParams_get [OF assms FindParksSchema_ok, of "''limit''"] g
    by (auto simp: FindParksSchema_keys js_get_def limit_def split: option.splits)
qed

lemma getAlerts_forwarded_limit:
  assumes "zod_parse GetAlertsSchema arguments = Inr args"
  shows "js_get (requestParams args) ''limit'' =
           (case map_of arguments ''limit'' of Some v \<Rightarrow> v | None \<Rightarrow> JNum 10)"
proof -
  have g: "js_get args ''limit'' = js_get arguments ''limit''"
    using zod_parse_get [OF assms, of "''limit''"] by (simp add: GetAlertsSchema_keys)
  show ?thesis
    using requestParams_get [OF assms GetAlertsSchema_ok, of "''limit''"] g
    by (auto simp: GetAlertsSchema_keys js_get_def limit_def split: option.splits)
qed

lemma findParks_invalid:
  assumes "zod_parse FindParksSchema arguments = Inr args" and "validation_errors (runtime e) args \<noteq> []"
  shows "findParks e arguments =
           ([], Inr [text_block (JSON_stringify (JObj [
              (''error'', JStr (''Invalid state code(s): '' @ js_join '', '' (validation_errors (runtime e) args))),
              (''validStateCodes'', JArr (map JStr STATE_CODES))]) None)])"
  using assms by (simp add: findParks_def)

lemma findParks_forward:
  assumes "zod_parse FindParksSchema arguments = Inr args" and "validation_errors (runtime e) args = []"
  shows "findParks e arguments =
           ([(''/parks'', requestParams args)],
            (case api_parks e (requestParams args) of
               Inl err \<Rightarrow> Inl err
             | Inr response \<Rightarrow>
                 (case resp_data response of
                    None \<Rightarrow> Inl undefined_map
                  | Some parkData \<Rightarrow>
                      Inr [text_block (JSON_stringify (JObj [
                         (''total'', parseInt (runtime e) (resp_total response)),
                         (''limit'', parseInt (runtime e) (resp_limit response)),
                         (''start'', parseInt (runtime e) (resp_start response)),
                         (''parks'', JArr (formatParkData (runtime e) parkData))]) (Some 2))])))"
  using assms by (simp add: findParks_def npsApiClient_getParks_def split: sum.splits option.splits)

lemma getAlerts_forward:
  assumes "zod_parse GetAlertsSchema arguments = Inr args"
  shows "getAlerts e arguments =
           ([(''/alerts'', requestParams args)],
            (case api_alerts e (requestParams args) of
               Inl err \<Rightarrow> Inl err
             | Inr response \<Rightarrow>
                 (case resp_data response of
                    None \<Rightarrow> Inl undefined_map
                  | Some alertData \<Rightarrow>
                      (case alertsByPark_forEach [] (formatAlertData (locale_date e) alertData) of
                         Inl err \<Rightarrow> Inl err
                       | Inr alertsByPark \<Rightarrow>
                           Inr [text_block (JSON_stringify (JObj [
                              (''total'', parseInt (runtime e) (resp_total response)),
                              (''limit'', parseInt (runtime e) (resp_limit response)),
                              (''start'', parseInt (runtime e) (resp_start response)),
                              (''alerts'', JArr (formatAlertData (locale_date e) alertData)),
                              (''alertsByPark'', JObj (map (\<lambda>(k, arr). (k, JArr arr)) alertsByPark))])
                              (Some 2))]))))"
  using assms by (simp add: getAlerts_def npsApiClient_getAlerts_def Let_def split: sum.splits option.splits)

lemma getParkDetails_forward:
  assumes "zod_parse GetParkDetailsSchema arguments = Inr args"
  shows "getParkDetails e arguments =
           ([(''/parks'', [(''parkCode'', js_get args ''parkCode''), (''limit'', JNum 1)])],
            (case api_parks e [(''parkCode'', js_get args ''parkCode''), (''limit'', JNum 1)] of
               Inl err \<Rightarrow> Inl err
             | Inr response \<Rightarrow>
                 (case resp_data response of
                    None \<Rightarrow> Inr (park_not_found args)
                  | Some parkData \<Rightarrow>
                      if parkData = [] then Inr (park_not_found args)
                      else Inr [text_block (JSON_stringify (formatParkDetails (runtime e) (hd parkData)) (Some 2))])))"
  using assms by (simp add: getParkDetails_def npsApiClient_getParkByCode_def Let_def split: sum.splits option.splits)

lemma parse_limit_100:
  "zod_parse FindParksSchema [(''limit'', JNum 100)] = Inr [(''limit'', JNum 100)]"
  "zod_parse GetAlertsSchema [(''limit'', JNum 100)] = Inr [(''limit'', JNum 100)]"
  by (simp_all add: zod_parse_def zod_field_def FindParksSchema_def GetAlertsSchema_def)

lemma requestParams_limit_100: "requestParams [(''limit'', JNum 100)] = [(''limit'', JNum 100)]"
  by (simp add: requestParams_def limit_def js_spread_def js_entries_def schema_keys_plain js_get_def)

lemma call_tool_findParks:
  "call_tool e \<lparr>params_name = ''findParks'', params_arguments = Some arguments\<rparr> =
     (case findParks e arguments of
        (calls, Inl error) \<Rightarrow> (calls, Inr (call_tool_catch error))
      | (calls, Inr response) \<Rightarrow> (calls, Inr response))"
  by (simp add: call_tool_def call_tool_try_def)

lemma call_tool_getParkDetails:
  "call_tool e \<lparr>params_name = ''getParkDetails'', params_arguments = Some arguments\<rparr> =
     (case getParkDetails e arguments of
        (calls, Inl error) \<Rightarrow> (calls, Inr (call_tool_catch error))
      | (calls, Inr response) \<Rightarrow> (calls, Inr response))"
  by (simp add: call_tool_def call_tool_try_def)

lemma call_tool_getAlerts:
  "call_tool e \<lparr>params_name = ''getAlerts'', params_arguments = Some arguments\<rparr> =
     (case getAlerts e arguments of
        (calls, Inl error) \<Rightarrow> (calls, Inr (call_tool_catch error))
      | (calls, Inr response) \<Rightarrow> (calls, Inr response))"
  by (simp add: call_tool_def call_tool_try_def)



lemmas stub_runtime_defs =
  stub_runtime_def ascii_trim_def ascii_trimStart_def ascii_toUpperCase_def
  ascii_toUpperCase_char_def is_ascii_whitespace_def


lemma parse_stateCode:
  "zod_parse FindParksSchema [(''stateCode'', JStr s)] = Inr [(''stateCode'', JStr s)]"
  by (simp add: zod_parse_def zod_field_def FindParksSchema_def)

lemma parse_parkCode:
  assumes "js_get arguments ''parkCode'' = JStr c"
  shows "zod_parse GetParkDetailsSchema arguments = Inr [(''parkCode'', JStr c)]"
proof -
  have "map_of arguments ''parkCode'' = Some (JStr c)"
    using assms by (auto simp: js_get_def split: option.splits)
  then show ?thesis
    by (simp add: zod_parse_def zod_field_def GetParkDetailsSchema_def)
qed

lemma formatParkDetails_no_wrapper:
  "js_field (formatParkDetails rt park) ''total'' = JUndefined"
  "js_field (formatParkDetails rt park) ''limit'' = JUndefined"
  "js_field (formatParkDetails rt park) ''start'' = JUndefined"
  by (simp_all add: formatParkDetails_def js_get_def)

lemma split_example:
  "map (trim stub_runtime) (js_split CHR '','' ''ID, MT,WY'') = [''ID'', ''MT'', ''WY'']"
  by (simp add: stub_runtime_defs)

lemma alertType_dictionary:
  "alertType c = (case map_of category_labels c of Some label \<Rightarrow> label | None \<Rightarrow> c)"
  by (simp add: alertType_def category_labels_def)

lemma location_address_physicalAddress:
  "location_address (formatParkDetails rt park)
     = (case physicalAddress park of Some a \<Rightarrow> address_object a | None \<Rightarrow> JUndefined)"
  by (simp add: location_address_def formatParkDetails_def js_get_def address_object_def
      split: option.splits)

section \<open>The handler as a whole\<close>

lemma call_tool_catch_block:
  "\<exists>v. call_tool_catch err = [text_block (JSON_stringify v (Some 2))]"
  by (cases err) (auto simp: server_error_def)

lemma findParks_block:
  assumes "snd (findParks e arguments) = Inr response"
  shows "(\<exists>v. response = [text_block (JSON_stringify v (Some 2))])
           \<or> (\<exists>codes. response = [text_block (JSON_stringify (JObj [
                (''error'', JStr (''Invalid state code(s): '' @ codes)),
                (''validStateCodes'', JArr (map JStr STATE_CODES))]) None)])"
proof (cases "zod_parse FindParksSchema arguments")
  case (Inl err)
  then show ?thesis using assms by (simp add: findParks_def)
next
  case (Inr args)
  show ?thesis
  proof (cases "validation_errors (runtime e) args = []")
    case True
    show ?thesis
      using assms unfolding findParks_forward [OF Inr True]
      by (auto split: sum.splits option.splits)
  next
    case False
    show ?thesis
      using assms unfolding findParks_invalid [OF Inr False] by auto
  qed
qed

lemma getParkDetails_block:
  assumes "snd (getParkDetails e arguments) = Inr response"
  shows "\<exists>v. response = [text_block (JSON_stringify v (Some 2))]"
proof (cases "zod_parse GetParkDetailsSchema arguments")
  case (Inl err)
  then show ?thesis using assms by (simp add: getParkDetails_def)
next
  case (Inr args)
  show ?thesis
    using assms unfolding getParkDetails_forward [OF Inr]
    by (auto simp: park_not_found_def split: sum.splits option.splits if_splits)
qed

lemma getAlerts_block:
  assumes "snd (getAlerts e arguments) = Inr response"
  shows "\<exists>v. response = [text_block (JSON_stringify v (Some 2))]"
proof (cases "zod_parse GetAlertsSchema arguments")
  case (Inl err)
  then show ?thesis using assms by (simp add: getAlerts_def)
next
  case (Inr args)
  show ?thesis
    using assms unfolding getAlerts_forward [OF Inr]
    by (auto split: sum.splits option.splits)
qed

lemma text_block_inject: "text_block a = text_block b \<longleftrightarrow> a = b"
  by (simp add: text_block_def)

lemma call_tool_try_block:
  assumes "snd (call_tool_try e req) = Inr response"
  shows "(\<exists>v. response = [text_block (JSON_stringify v (Some 2))])
           \<or> (params_name req = ''findParks''
               \<and> (\<exists>codes. response = [text_block (JSON_stringify (JObj [
                    (''error'', JStr (''Invalid state code(s): '' @ codes)),
                    (''validStateCodes'', JArr (map JStr STATE_CODES))]) None)]))"
proof (cases "params_arguments req")
  case None
  then show ?thesis using assms by (simp add: call_tool_try_def)
next
  case (Some arguments)
  consider (parks) "params_name req = ''findParks''"
    | (details) "params_name req \<noteq> ''findParks''" "params_name req = ''getParkDetails''"
    | (alerts) "params_name req \<noteq> ''findParks''" "params_name req \<noteq> ''getParkDetails''"
        "params_name req = ''getAlerts''"
    | (unknown) "params_name req \<noteq> ''findParks''" "params_name req \<noteq> ''getParkDetails''"
        "params_name req \<noteq> ''getAlerts''"
    by blast
  then show ?thesis
  proof cases
    case parks
    then have "snd (findParks e arguments) = Inr response"
      using assms Some by (simp add: call_tool_try_def)
    then show ?thesis using findParks_block [of e arguments response] parks by blast
  next
    case details
    then have "snd (getParkDetails e arguments) = Inr response"
      using assms Some by (simp add: call_tool_try_def)
    then show ?thesis using getParkDetails_block [of e arguments response] by blast
  next
    case alerts
    then have "snd (getAlerts e arguments) = Inr response"
      using assms Some by (simp add: call_tool_try_def)
    then show ?thesis using getAlerts_block [of e arguments response] by blast
  next
    case unknown
    then show ?thesis using assms Some by (simp add: call_tool_try_def)
  qed
qed

lemma call_tool_cases:
  "(\<exists>err. snd (call_tool_try e req) = Inl err \<and> snd (call_tool e req) = Inr (call_tool_catch err))
   \<or> (\<exists>response. snd (call_tool_try e req) = Inr response \<and> snd (call_tool e req) = Inr response)"
  by (cases "call_tool_try e req"; cases "snd (call_tool_try e req)") (auto simp: call_tool_def)

text \<open>
  No exception leaves the handler, and the response is one text block: for every upstream
  and every request, whatever fails.
\<close>

lemma call_tool_one_text_block:
  "\<exists>v space. snd (call_tool e req) = Inr [text_block (JSON_stringify v space)]"
proof -
  from call_tool_cases [of e req] show ?thesis
  proof (elim disjE exE conjE)
    fix err
    assume c: "snd (call_tool e req) = Inr (call_tool_catch err)"
    obtain v where "call_tool_catch err = [text_block (JSON_stringify v (Some 2))]"
      using call_tool_catch_block by blast
    then show ?thesis using c by auto
  next
    fix response
    assume t: "snd (call_tool_try e req) = Inr response"
      and c: "snd (call_tool e req) = Inr response"
    from call_tool_try_block [OF t] show ?thesis using c by auto
  qed
qed

text \<open>
  The text is indented by two spaces in every response but one: the error object of the
  state-code validation of \<^verbatim>\<open>findParks\<close>.
\<close>

lemma call_tool_indented:
  assumes "snd (call_tool e req) = Inr [text_block (JSON_stringify v space)]"
  shows "space = Some 2
         \<or> (params_name req = ''findParks'' \<and> space = None
            \<and> js_field v ''validStateCodes'' = JArr (map JStr STATE_CODES))"
proof -
  from call_tool_cases [of e req] show ?thesis
  proof (elim disjE exE conjE)
    fix err
    assume "snd (call_tool e req) = Inr (call_tool_catch err)"
    then show ?thesis
      using assms call_tool_catch_block [of err] by (auto simp: text_block_inject)
  next
    fix response
    assume t: "snd (call_tool_try e req) = Inr response" and "snd (call_tool e req) = Inr response"
    then have r: "response = [text_block (JSON_stringify v space)]" using assms by simp
    from call_tool_try_block [OF t] show ?thesis
      unfolding r by (auto simp: text_block_inject js_get_def)
  qed
qed

text \<open>An unknown tool name, and missing arguments, give the generic error object.\<close>

lemma call_tool_unknown:
  assumes "params_name req \<notin> {''findParks'', ''getParkDetails'', ''getAlerts''}"
    and "params_arguments req = Some arguments"
  shows "call_tool e req = ([], Inr [text_block (JSON_stringify (JObj [
           (''error'', JStr ''Server error''),
           (''message'', JStr (''Unknown tool: '' @ params_name req))]) (Some 2))])"
  using assms by (simp add: call_tool_def call_tool_try_def server_error_def)

lemma call_tool_no_arguments:
  assumes "params_arguments req = None"
  shows "call_tool e req = ([], Inr [text_block (JSON_stringify (JObj [
           (''error'', JStr ''Server error''),
           (''message'', JStr ''Arguments are required'')]) (Some 2))])"
  using assms by (simp add: call_tool_def call_tool_try_def server_error_def)

lemma call_tool_upstream_error:
  assumes "snd (call_tool_try e req) = Inl (Error message)"
  shows "snd (call_tool e req) = Inr [text_block (JSON_stringify (JObj [
           (''error'', JStr ''Server error''),
           (''message'', JStr message)]) (Some 2))]"
  using assms by (auto simp: call_tool_def server_error_def split: prod.splits)

section \<open>Properties of integer parsing\<close>















lemma parseInt_examples:
  "parseInt stub_runtime ''474'' = JNum 474"
  "parseInt stub_runtime ''10'' = JNum 10"
  "parseInt stub_runtime ''0'' = JNum 0"
  "parseInt stub_runtime '' 42'' = JNum 42"
  "parseInt stub_runtime ''-7'' = JNum (- 7)"
  "parseInt stub_runtime ''12px'' = JNum 12"
  "parseInt stub_runtime ''0x1F'' = JNum 31"
  "parseInt stub_runtime ''abc'' = JNaN"
  "parseInt stub_runtime [] = JNaN"
  by (simp_all add: parseInt_def parseInt_numeral_def parseInt_radix_def parseInt_unsigned_def
      parseInt_sign_def stub_runtime_defs is_radix_digit_def digit_value_def radix_value_def)


section \<open>Properties of the grouping of alerts\<close>

lemma js_set_other: "k \<notin> fst ` set obj \<Longrightarrow> map (\<lambda>(k', v'). (k', if k' = k then v else v')) obj = obj"
  by (induction obj) auto

lemma js_set_update:
  "distinct (map fst obj) \<Longrightarrow> map_of obj k = Some v0 \<Longrightarrow>
   js_set obj k v = map (\<lambda>(k', v'). (k', if k' = k then v else v')) obj"
proof (induction obj)
  case Nil
  then show ?case by simp
next
  case (Cons x obj)
  obtain k0 v0' where x: "x = (k0, v0')" by (cases x) auto
  show ?case
  proof (cases "k0 = k")
    case True
    then have "k \<notin> fst ` set obj" using Cons.prems(1) by (auto simp: x)
    then show ?thesis using True by (simp add: x js_set_other)
  next
    case False
    then show ?thesis using Cons by (simp add: x)
  qed
qed

text \<open>
  The loop, from any object with distinct keys: each array of the object gets the
  alerts of its key appended, in their order, and the keys that are new come after, in
  the order of their first occurrence, each with its alerts. No key may be one that
  \<^verbatim>\<open>Object.prototype\<close> provides.
\<close>

lemma alertsByPark_forEach_groups:
  assumes "distinct (map fst obj)"
    and "\<forall>a \<in> set alerts. alert_key a \<notin> set Object_prototype_keys"
  shows "alertsByPark_forEach obj alerts =
           Inr (map (\<lambda>(k, arr). (k, arr @ filter (\<lambda>a. alert_key a = k) alerts)) obj
                @ map (\<lambda>k. (k, filter (\<lambda>a. alert_key a = k) alerts))
                    (filter (\<lambda>k. k \<notin> fst ` set obj) (first_occurrences (map alert_key alerts))))"
  using assms
proof (induction alerts arbitrary: obj)
  case Nil
  have "map (\<lambda>(k, arr). (k, arr)) obj = obj" by (induction obj) auto
  then show ?case by simp
next
  case (Cons a rest)
  let ?k = "alert_key a"
  let ?ks = "first_occurrences (map alert_key rest)"
  let ?K = "fst ` set obj"
  let ?F = "\<lambda>as. \<lambda>(k, arr). (k, arr @ filter (\<lambda>a. alert_key a = k) as)"
  let ?G = "\<lambda>as. \<lambda>k. (k, filter (\<lambda>a. alert_key a = k) as)"
  have proto: "?k \<notin> set Object_prototype_keys" and rest: "\<forall>a \<in> set rest. alert_key a \<notin> set Object_prototype_keys"
    using Cons.prems(2) by auto
  have G_eq: "map (?G (a # rest)) ys = map (?G rest) ys" if "?k \<notin> set ys" for ys
    using that by (induction ys) auto
  show ?case
  proof (cases "map_of obj ?k")
    case None
    then have notin: "?k \<notin> ?K" by (simp add: map_of_eq_None_iff)
    let ?obj' = "obj @ [(?k, [a])]"
    have step: "alertsByPark_forEach obj (a # rest) = alertsByPark_forEach ?obj' rest"
      using None proto notin by (simp add: alert_key_def js_set_absent Let_def)
    have d': "distinct (map fst ?obj')" using Cons.prems(1) notin by simp
    have F_eq: "map (?F (a # rest)) obj = map (?F rest) obj"
      using notin by (intro map_cong) (auto simp: image_iff)
    have keys': "fst ` set ?obj' = insert ?k ?K" by auto
    have f1: "filter (\<lambda>k. k \<notin> fst ` set ?obj') ?ks = filter (\<lambda>k. k \<notin> ?K) (filter (\<lambda>k'. k' \<noteq> ?k) ?ks)"
      unfolding keys' by (auto intro: filter_cong)
    have nk: "?k \<notin> set (filter (\<lambda>k. k \<notin> ?K) (filter (\<lambda>k'. k' \<noteq> ?k) ?ks))" by simp
    show ?thesis
      unfolding step Cons.IH [OF d' rest] f1
      using notin by (simp add: G_eq [OF nk]) (auto simp: image_iff)
  next
    case (Some arr)
    then have mem: "(?k, arr) \<in> set obj" by (rule map_of_SomeD)
    then have inK: "?k \<in> ?K" by force
    let ?obj' = "map (\<lambda>(k', v'). (k', if k' = ?k then arr @ [a] else v')) obj"
    have step: "alertsByPark_forEach obj (a # rest) = alertsByPark_forEach ?obj' rest"
      using Some js_set_update [OF Cons.prems(1) Some, of "arr @ [a]"]
      by (simp add: alert_key_def Let_def)
    have keys': "map fst ?obj' = map fst obj" by (induction obj) auto
    have d': "distinct (map fst ?obj')" unfolding keys' by (rule Cons.prems(1))
    have "set (map fst ?obj') = set (map fst obj)" by (simp only: keys')
    then have K': "fst ` set ?obj' = ?K" by (simp only: set_map)
    have arr: "v' = arr" if "(?k, v') \<in> set obj" for v'
      using that Some Cons.prems(1) by simp
    have F_eq: "map (?F rest) ?obj' = map (?F (a # rest)) obj"
      using arr by (auto simp: comp_def)
    have f1: "filter (\<lambda>k. k \<notin> ?K) (first_occurrences (map alert_key (a # rest)))
                = filter (\<lambda>k. k \<notin> ?K) ?ks"
      using inK by (auto intro: filter_cong)
    have nk: "?k \<notin> set (filter (\<lambda>k. k \<notin> ?K) ?ks)" using inK by simp
    show ?thesis
      by (simp only: step Cons.IH [OF d' rest] K' f1 F_eq G_eq [OF nk])
  qed
qed

lemma alert_key_format: "alert_key (formatAlertData_alert d alert) = alert_parkCode alert"
  by (simp add: alert_key_def formatAlertData_alert_def Let_def js_get_def)

lemma set_first_occurrences: "set (first_occurrences ks) = set ks"
  by (induction ks) auto

lemma distinct_first_occurrences: "distinct (first_occurrences ks)"
  by (induction ks) (auto simp: set_first_occurrences)

lemma map_of_tabulate: "k \<in> set ks \<Longrightarrow> map_of (map (\<lambda>k. (k, f k)) ks) k = Some (f k)"
  by (induction ks) auto

lemma alertsByPark_of_alertData:
  assumes "\<forall>alert \<in> set alertData. alert_parkCode alert \<notin> set Object_prototype_keys"
  shows "alertsByPark_forEach [] (formatAlertData d alertData) =
           Inr (map (\<lambda>k. (k, formatAlertData d (filter (\<lambda>alert. alert_parkCode alert = k) alertData)))
                  (first_occurrences (map alert_parkCode alertData)))"
proof -
  have keys: "map alert_key (formatAlertData d alertData) = map alert_parkCode alertData"
    by (simp add: formatAlertData_def alert_key_format)
  have proto: "\<forall>a \<in> set (formatAlertData d alertData). alert_key a \<notin> set Object_prototype_keys"
    using assms by (auto simp: formatAlertData_def alert_key_format)
  have f: "filter (\<lambda>a. alert_key a = k) (formatAlertData d alertData)
             = formatAlertData d (filter (\<lambda>alert. alert_parkCode alert = k) alertData)" for k
    by (simp add: formatAlertData_def filter_map comp_def alert_key_format)
  show ?thesis
    using alertsByPark_forEach_groups [of "[]" "formatAlertData d alertData", OF _ proto]
    by (simp add: keys f)
qed

text \<open>
  The keys of an object as they are enumerated, from the keys in creation order.
\<close>

lemma map_fst_insort_key:
  "map fst (insort_key (\<lambda>(k, v). f k) x xs) = insort_key f (fst x) (map fst xs)"
  by (induction xs) (auto simp: case_prod_unfold)

lemma map_fst_sort_key: "map fst (sort_key (\<lambda>(k, v). f k) xs) = sort_key f (map fst xs)"
  by (induction xs) (simp_all add: map_fst_insort_key)

lemma map_fst_filter: "map fst (filter (\<lambda>(k, v). P k) obj) = filter P (map fst obj)"
  by (induction obj) auto

lemma js_keys_order:
  "js_keys obj =
     sort_key (radix_value 10) (filter is_array_index (map fst obj))
     @ filter (\<lambda>k. \<not> is_array_index k) (map fst obj)"
  by (simp add: js_keys_def js_entries_def map_fst_sort_key map_fst_filter)

lemma set_js_keys: "set (js_keys obj) = fst ` set obj"
  by (auto simp: js_keys_order)

lemma distinct_js_keys: "distinct (map fst obj) \<Longrightarrow> distinct (js_keys obj)"
  by (auto simp: js_keys_order)

lemma parse_no_arguments: "zod_parse GetAlertsSchema [] = Inr []"
  by (simp add: zod_parse_def zod_field_def GetAlertsSchema_def)

lemma requestParams_empty: "requestParams [] = [(''limit'', JNum 10)]"
  by (simp add: requestParams_def limit_def js_spread_def js_entries_def js_get_def)

lemma js_keys_numeric: "js_keys [(''2'', x), (''1'', y)] = [''1'', ''2'']"
  by (simp add: js_keys_def js_entries_def is_array_index_def is_radix_digit_def
      digit_value_def radix_value_def)

text \<open>
  A park code that \<^verbatim>\<open>Object.prototype\<close> provides stops the grouping: the handler answers
  with the generic error object.
\<close>

lemma getAlerts_inherited_key:
  "snd (call_tool (stub_env ''1'' [] [stub_alert ''constructor'' ''First'' ''Danger''])
         \<lparr>params_name = ''getAlerts'', params_arguments = Some []\<rparr>)
     = Inr [text_block (JSON_stringify (JObj [
         (''error'', JStr ''Server error''),
         (''message'', JStr ''alertsByPark[alert.parkCode].push is not a function'')]) (Some 2))]"
proof -
  let ?a = "formatAlertData_alert (\<lambda>d. take 10 d) (stub_alert ''constructor'' ''First'' ''Danger'')"
  have k: "js_to_string (js_field ?a ''parkCode'') = ''constructor''"
    using alert_key_format [of "\<lambda>d. take 10 d"] by (simp add: alert_key_def stub_alert_def)
  show ?thesis
    unfolding call_tool_getAlerts getAlerts_forward [OF parse_no_arguments]
    by (simp add: stub_env_def formatAlertData_def k Let_def Object_prototype_keys_def
        server_error_def)
qed

section \<open>The claims\<close>

text \<open>
  C1. The claim: a limit above 50 given to \<^verbatim>\<open>findParks\<close> or \<^verbatim>\<open>getAlerts\<close> reaches the
  upstream as exactly 50. The handlers do compute the clamped value
  (\<open>limit\<close> is 50 at 100), but the request parameters are
  \<^verbatim>\<open>{ limit, ...args }\<close>, and the spread of \<open>args\<close> writes the caller's own limit over
  it: with limit 100 the call to the upstream carries 100, for both tools and whatever
  the upstream answers.
\<close>

theorem C1_limit_above_50_not_clamped:
  "fst (findParks e [(''limit'', JNum 100)]) = [(''/parks'', [(''limit'', JNum 100)])]
   \<and> fst (getAlerts e [(''limit'', JNum 100)]) = [(''/alerts'', [(''limit'', JNum 100)])]
   \<and> limit [(''limit'', JNum 100)] = JNum 50"
proof -
  have v: "validation_errors (runtime e) [(''limit'', JNum 100)] = []"
    by (simp add: validation_errors_def js_get_def)
  have "fst (findParks e [(''limit'', JNum 100)]) = [(''/parks'', [(''limit'', JNum 100)])]"
    by (simp add: findParks_forward [OF parse_limit_100(1) v] requestParams_limit_100)
  moreover have "fst (getAlerts e [(''limit'', JNum 100)]) = [(''/alerts'', [(''limit'', JNum 100)])]"
    by (simp add: getAlerts_forward [OF parse_limit_100(2)] requestParams_limit_100)
  moreover have "limit [(''limit'', JNum 100)] = JNum 50"
    by (simp add: limit_def js_get_def)
  ultimately show ?thesis by simp
qed




text \<open>
  C3. For every \<^verbatim>\<open>getParkDetails\<close> invocation with a \<^verbatim>\<open>parkCode\<close> string \<open>c\<close>: the
  handler makes exactly one call, \<^verbatim>\<open>GET /parks\<close> with \<^verbatim>\<open>parkCode = c\<close> and
  \<^verbatim>\<open>limit = 1\<close>. When the upstream answers with a body whose \<^verbatim>\<open>data\<close> is missing or
  empty, the handler returns (it does not throw) one text block with the error object
  \<^verbatim>\<open>{error: "Park not found", message: "No park found with park code: " + c}\<close>. When
  \<^verbatim>\<open>data\<close> is not empty, the handler returns the detail mapping of its first record
  and nothing around it: the result has no \<^verbatim>\<open>total\<close>, \<^verbatim>\<open>limit\<close> or \<^verbatim>\<open>start\<close>.
\<close>

theorem C3_getParkDetails_not_found:
  assumes "js_get arguments ''parkCode'' = JStr c"
  shows "fst (call_tool e \<lparr>params_name = ''getParkDetails'', params_arguments = Some arguments\<rparr>)
           = [(''/parks'', [(''parkCode'', JStr c), (''limit'', JNum 1)])]
       \<and> (\<forall>response.
            api_parks e [(''parkCode'', JStr c), (''limit'', JNum 1)] = Inr response \<longrightarrow>
              (resp_data response = None \<or> resp_data response = Some [] \<longrightarrow>
                 snd (call_tool e \<lparr>params_name = ''getParkDetails'', params_arguments = Some arguments\<rparr>)
                   = Inr [text_block (JSON_stringify (JObj [
                       (''error'', JStr ''Park not found''),
                       (''message'', JStr (''No park found with park code: '' @ c))]) (Some 2))])
              \<and> (\<forall>park rest. resp_data response = Some (park # rest) \<longrightarrow>
                   snd (call_tool e \<lparr>params_name = ''getParkDetails'', params_arguments = Some arguments\<rparr>)
                     = Inr [text_block (JSON_stringify (formatParkDetails (runtime e) park) (Some 2))]
                   \<and> js_field (formatParkDetails (runtime e) park) ''total'' = JUndefined
                   \<and> js_field (formatParkDetails (runtime e) park) ''limit'' = JUndefined
                   \<and> js_field (formatParkDetails (runtime e) park) ''start'' = JUndefined))"
proof -
  note p = parse_parkCode [OF assms]
  have g: "js_get [(''parkCode'', JStr c)] ''parkCode'' = JStr c"
    by (simp add: js_get_def)
  show ?thesis
    unfolding call_tool_getParkDetails getParkDetails_forward [OF p] g
    by (auto simp: park_not_found_def g formatParkDetails_no_wrapper split: sum.splits)
qed

text \<open>
  C3, two instances: an upstream with no park, and one that answers with Yellowstone.
\<close>

theorem C3_witness:
  "call_tool (stub_env ''0'' [] [])
     \<lparr>params_name = ''getParkDetails'', params_arguments = Some [(''parkCode'', JStr ''yell'')]\<rparr>
   = ([(''/parks'', [(''parkCode'', JStr ''yell''), (''limit'', JNum 1)])],
      Inr [text_block (JSON_stringify (JObj [
             (''error'', JStr ''Park not found''),
             (''message'', JStr ''No park found with park code: yell'')]) (Some 2))])
   \<and> call_tool (stub_env ''1'' [yellowstone] [])
     \<lparr>params_name = ''getParkDetails'', params_arguments = Some [(''parkCode'', JStr ''yell'')]\<rparr>
   = ([(''/parks'', [(''parkCode'', JStr ''yell''), (''limit'', JNum 1)])],
      Inr [text_block (JSON_stringify (formatParkDetails stub_runtime yellowstone) (Some 2))])"
proof -
  have h: "js_get [(''parkCode'', JStr ''yell'')] ''parkCode'' = JStr ''yell''"
    by (simp add: js_get_def)
  have a: "api_parks (stub_env t ps as) params
             = Inr \<lparr>resp_total = t, resp_limit = ''10'', resp_start = ''0'', resp_data = Some ps\<rparr>"
    "runtime (stub_env t ps as) = stub_runtime"
    for t ps as params by (simp_all add: stub_env_def)
  show ?thesis
    using C3_getParkDetails_not_found [OF h, of "stub_env ''0'' [] []"]
      C3_getParkDetails_not_found [OF h, of "stub_env ''1'' [yellowstone] []"]
    by (simp add: a prod_eq_iff)
qed

text \<open>
  C4. The claim: every response holds a result or an error object serialised with an
  indentation of two spaces. No exception leaves the handler and every response is one
  text block (\<open>call_tool_one_text_block\<close>), an unknown tool name gives the generic
  error object (\<open>call_tool_unknown\<close>), and five of the six \<^verbatim>\<open>JSON.stringify\<close> calls
  indent by two. The sixth does not: the error object for invalid state codes is
  serialised by \<^verbatim>\<open>JSON.stringify(...)\<close> with no indentation, as here for the state
  code \<^verbatim>\<open>XX\<close>, whatever the upstream is. The two hypotheses say of the built-ins what
  every JavaScript engine does: \<^verbatim>\<open>"XX".trim()\<close> and \<^verbatim>\<open>"XX".toUpperCase()\<close> are
  \<^verbatim>\<open>"XX"\<close>.
\<close>

theorem C4_invalid_state_envelope_not_indented:
  assumes "trim (runtime e) ''XX'' = ''XX''" and "toUpperCase (runtime e) ''XX'' = ''XX''"
  shows "call_tool e \<lparr>params_name = ''findParks'', params_arguments = Some [(''stateCode'', JStr ''XX'')]\<rparr>
     = ([], Inr [text_block (JSON_stringify (JObj [
          (''error'', JStr ''Invalid state code(s): XX''),
          (''validStateCodes'', JArr (map JStr STATE_CODES))]) None)])"
proof -
  have v: "validation_errors (runtime e) [(''stateCode'', JStr ''XX'')] = [''XX'']"
    by (simp add: validation_errors_def js_get_def invalidStates_def providedStates_def
        assms STATE_CODES_def)
  then have ne: "validation_errors (runtime e) [(''stateCode'', JStr ''XX'')] \<noteq> []" by simp
  show ?thesis
    by (simp add: call_tool_findParks findParks_invalid [OF parse_stateCode ne] v)
qed

text \<open>
  C4, an instance, with the ASCII built-ins and an upstream that would answer.
\<close>

theorem C4_witness:
  "call_tool (stub_env ''1'' [yellowstone] five_alerts)
     \<lparr>params_name = ''findParks'', params_arguments = Some [(''stateCode'', JStr ''XX'')]\<rparr>
     = ([], Inr [text_block (JSON_stringify (JObj [
          (''error'', JStr ''Invalid state code(s): XX''),
          (''validStateCodes'', JArr (map JStr STATE_CODES))]) None)])"
proof -
  have t: "trim (runtime (stub_env ''1'' [yellowstone] five_alerts)) ''XX'' = ''XX''"
    by (simp add: stub_env_def stub_runtime_defs)
  have u: "toUpperCase (runtime (stub_env ''1'' [yellowstone] five_alerts)) ''XX'' = ''XX''"
    by (simp add: stub_env_def stub_runtime_defs)
  show ?thesis
    using C4_invalid_state_envelope_not_indented [OF t u] by simp
qed

text \<open>
  C5. For every park record, the \<^verbatim>\<open>states\<close> field of its summary
  (\<^verbatim>\<open>formatParkData\<close>, for each record of the array) and of its detail
  (\<^verbatim>\<open>formatParkDetails\<close>) is the list of the pieces of the raw \<^verbatim>\<open>states\<close> string
  between its commas, each trimmed, in their order. The trimming is that of the
  engine, \<^verbatim>\<open>String.prototype.trim\<close>, the field \<open>trim\<close> of the runtime \<open>rt\<close>, and the
  statement holds whatever that function is. That the pieces are those of the raw
  string, in order, is said by the last two lines: joined by commas they give the raw
  string back, and none holds a comma.
\<close>

theorem C5_states_split_and_trimmed:
  "js_field (formatParkData_park rt park) ''states''
     = JArr (map (\<lambda>token. JStr (trim rt token)) (js_split CHR '','' (states park)))
   \<and> js_field (formatParkDetails rt park) ''states''
     = JArr (map (\<lambda>token. JStr (trim rt token)) (js_split CHR '','' (states park)))
   \<and> map (\<lambda>summary. js_field summary ''states'') (formatParkData rt parkData)
     = map (\<lambda>park. JArr (map (\<lambda>token. JStr (trim rt token)) (js_split CHR '','' (states park))))
         parkData
   \<and> js_join '','' (js_split CHR '','' (states park)) = states park
   \<and> list_all (\<lambda>token. CHR '','' \<notin> set token) (js_split CHR '','' (states park))"
proof -
  have s: "js_field (formatParkData_park rt p) ''states''
     = JArr (map (\<lambda>token. JStr (trim rt token)) (js_split CHR '','' (states p)))" for p
    by (simp add: formatParkData_park_def js_get_def)
  have d: "js_field (formatParkDetails rt park) ''states''
     = JArr (map (\<lambda>token. JStr (trim rt token)) (js_split CHR '','' (states park)))"
    by (simp add: formatParkDetails_def js_get_def)
  show ?thesis
    using js_join_split [of "CHR '',''" "states park"] js_split_no_sep [of "CHR '',''" "states park"]
    by (simp add: s d formatParkData_def)
qed

text \<open>
  C5, an instance, with the ASCII built-ins: the raw string \<^verbatim>\<open>"ID, MT,WY"\<close> gives
  \<^verbatim>\<open>["ID", "MT", "WY"]\<close>.
\<close>

theorem C5_witness:
  "js_field (formatParkData_park stub_runtime yellowstone) ''states''
     = JArr [JStr ''ID'', JStr ''MT'', JStr ''WY'']
   \<and> js_field (formatParkDetails stub_runtime yellowstone) ''states''
     = JArr [JStr ''ID'', JStr ''MT'', JStr ''WY'']"
proof -
  have "states yellowstone = ''ID, MT,WY''" by (simp add: yellowstone_def)
  then show ?thesis
    using C5_states_split_and_trimmed [of stub_runtime yellowstone "[]"] split_example
    by simp
qed

text \<open>
  C6. For every alert record, the \<^verbatim>\<open>type\<close> of the normalized alert is the label the
  fixed dictionary gives for the record's category, and the category itself when the
  dictionary has no entry for it; the dictionary is the four pairs of the claim.
\<close>

theorem C6_alert_category_relabelled:
  "js_field (formatAlertData_alert d alert) ''type''
     = JStr (case map_of category_labels (category alert) of Some label \<Rightarrow> label | None \<Rightarrow> category alert)
   \<and> map (\<lambda>a. js_field a ''type'') (formatAlertData d alertData)
     = map (\<lambda>alert. JStr (case map_of category_labels (category alert) of
                            Some label \<Rightarrow> label | None \<Rightarrow> category alert)) alertData
   \<and> category_labels =
       [(''Information'', ''Information (non-emergency)''),
        (''Caution'', ''Caution (potential hazard)''),
        (''Danger'', ''Danger (significant hazard)''),
        (''Park Closure'', ''Park Closure (area inaccessible)'')]"
proof -
  have t: "js_field (formatAlertData_alert d a) ''type''
     = JStr (case map_of category_labels (category a) of Some label \<Rightarrow> label | None \<Rightarrow> category a)" for a
    by (simp add: formatAlertData_alert_def Let_def js_get_def alertType_dictionary)
  show ?thesis
    by (simp add: t formatAlertData_def category_labels_def)
qed

text \<open>
  C6, an instance: the four known categories and the unknown \<^verbatim>\<open>Wildlife\<close>.
\<close>

theorem C6_witness:
  "map (\<lambda>a. js_field a ''type'') (formatAlertData (\<lambda>d. take 10 d) five_alerts)
     = [JStr ''Park Closure (area inaccessible)'', JStr ''Danger (significant hazard)'',
        JStr ''Caution (potential hazard)'', JStr ''Information (non-emergency)'',
        JStr ''Wildlife'']"
  using C6_alert_category_relabelled [of "\<lambda>d. take 10 d" "stub_alert [] [] []" five_alerts]
  by (simp add: five_alerts_def stub_alert_def category_labels_def)

text \<open>
  C7, as amended. For every \<^verbatim>\<open>getAlerts\<close> invocation whose arguments pass the schema
  and to which the upstream answers with alerts, none of whose park codes is a name
  that \<^verbatim>\<open>Object.prototype\<close> provides (such as \<^verbatim>\<open>"constructor"\<close>): the result is
  \<^verbatim>\<open>{total, limit, start, alerts, alertsByPark}\<close>, \<^verbatim>\<open>alerts\<close> is the flat list of the
  normalized alerts, and \<^verbatim>\<open>alertsByPark\<close> has one key for each park code that occurs,
  each mapped to the normalized alerts of exactly the alerts with that park code, in
  their original order. The keys are created in the order in which each park code occurs
  first. They are enumerated, and so serialised, with the park codes that are array
  indices (canonical decimal numerals below \<open>2^32 - 1\<close>, such as \<^verbatim>\<open>"7"\<close>) first, in
  ascending numeric order, and the other park codes after them, in the order of their
  first occurrence. When no park code is an array index, that is the order of first
  occurrence.
\<close>

theorem C7_alerts_grouped_by_park:
  assumes "zod_parse GetAlertsSchema arguments = Inr args"
    and "api_alerts e (requestParams args) = Inr response"
    and "resp_data response = Some alertData"
    and "\<forall>alert \<in> set alertData. alert_parkCode alert \<notin> set Object_prototype_keys"
  shows "\<exists>alertsByPark.
           snd (call_tool e \<lparr>params_name = ''getAlerts'', params_arguments = Some arguments\<rparr>)
             = Inr [text_block (JSON_stringify (JObj [
                 (''total'', parseInt (runtime e) (resp_total response)),
                 (''limit'', parseInt (runtime e) (resp_limit response)),
                 (''start'', parseInt (runtime e) (resp_start response)),
                 (''alerts'', JArr (formatAlertData (locale_date e) alertData)),
                 (''alertsByPark'', JObj alertsByPark)]) (Some 2))]
           \<and> map fst alertsByPark = first_occurrences (map alert_parkCode alertData)
           \<and> js_keys alertsByPark
               = sort_key (radix_value 10)
                   (filter is_array_index (first_occurrences (map alert_parkCode alertData)))
                 @ filter (\<lambda>k. \<not> is_array_index k)
                     (first_occurrences (map alert_parkCode alertData))
           \<and> ((\<forall>alert \<in> set alertData. \<not> is_array_index (alert_parkCode alert)) \<longrightarrow>
                js_keys alertsByPark = first_occurrences (map alert_parkCode alertData))
           \<and> distinct (js_keys alertsByPark)
           \<and> set (js_keys alertsByPark) = set (map alert_parkCode alertData)
           \<and> (\<forall>k \<in> set (js_keys alertsByPark).
                 map_of alertsByPark k
                   = Some (JArr (formatAlertData (locale_date e)
                       (filter (\<lambda>alert. alert_parkCode alert = k) alertData))))"
proof -
  let ?d = "locale_date e"
  let ?ks = "first_occurrences (map alert_parkCode alertData)"
  let ?group = "\<lambda>k. JArr (formatAlertData ?d (filter (\<lambda>alert. alert_parkCode alert = k) alertData))"
  let ?obj = "map (\<lambda>k. (k, ?group k)) ?ks"
  note proto = assms(4)
  have m: "map (\<lambda>(k, arr). (k, JArr arr))
             (map (\<lambda>k. (k, formatAlertData ?d (filter (\<lambda>alert. alert_parkCode alert = k) alertData))) ?ks)
           = ?obj"
    by simp
  have result: "snd (call_tool e \<lparr>params_name = ''getAlerts'', params_arguments = Some arguments\<rparr>)
             = Inr [text_block (JSON_stringify (JObj [
                 (''total'', parseInt (runtime e) (resp_total response)),
                 (''limit'', parseInt (runtime e) (resp_limit response)),
                 (''start'', parseInt (runtime e) (resp_start response)),
                 (''alerts'', JArr (formatAlertData ?d alertData)),
                 (''alertsByPark'', JObj ?obj)]) (Some 2))]"
    unfolding call_tool_getAlerts getAlerts_forward [OF assms(1)]
    by (simp add: assms(2,3) alertsByPark_of_alertData [OF proto] comp_def)
  have created: "map fst ?obj = ?ks" by (simp add: comp_def)
  have order: "js_keys ?obj
                 = sort_key (radix_value 10) (filter is_array_index ?ks)
                   @ filter (\<lambda>k. \<not> is_array_index k) ?ks"
    by (simp only: js_keys_order created)
  have plain: "(\<forall>alert \<in> set alertData. \<not> is_array_index (alert_parkCode alert)) \<longrightarrow>
                 js_keys ?obj = ?ks"
  proof
    assume "\<forall>alert \<in> set alertData. \<not> is_array_index (alert_parkCode alert)"
    then have "\<forall>k \<in> set ?ks. \<not> is_array_index k"
      by (auto simp: set_first_occurrences)
    then have "filter is_array_index ?ks = []" and "filter (\<lambda>k. \<not> is_array_index k) ?ks = ?ks"
      by (simp_all add: filter_empty_conv filter_id_conv)
    then show "js_keys ?obj = ?ks" by (simp add: order)
  qed
  have dist: "distinct (js_keys ?obj)"
    using distinct_js_keys [of ?obj] distinct_first_occurrences [of "map alert_parkCode alertData"]
    by (simp only: created)
  have keyset: "set (js_keys ?obj) = set (map alert_parkCode alertData)"
    using set_first_occurrences [of "map alert_parkCode alertData"]
    by (simp only: set_js_keys set_map [symmetric] created)
  have groups: "\<forall>k \<in> set (js_keys ?obj). map_of ?obj k = Some (?group k)"
    unfolding keyset set_first_occurrences [of "map alert_parkCode alertData", symmetric]
    by (auto intro: map_of_tabulate)
  have "snd (call_tool e \<lparr>params_name = ''getAlerts'', params_arguments = Some arguments\<rparr>)
             = Inr [text_block (JSON_stringify (JObj [
                 (''total'', parseInt (runtime e) (resp_total response)),
                 (''limit'', parseInt (runtime e) (resp_limit response)),
                 (''start'', parseInt (runtime e) (resp_start response)),
                 (''alerts'', JArr (formatAlertData ?d alertData)),
                 (''alertsByPark'', JObj ?obj)]) (Some 2))]
           \<and> map fst ?obj = ?ks
           \<and> js_keys ?obj
               = sort_key (radix_value 10) (filter is_array_index ?ks)
                 @ filter (\<lambda>k. \<not> is_array_index k) ?ks
           \<and> ((\<forall>alert \<in> set alertData. \<not> is_array_index (alert_parkCode alert)) \<longrightarrow>
                js_keys ?obj = ?ks)
           \<and> distinct (js_keys ?obj)
           \<and> set (js_keys ?obj) = set (map alert_parkCode alertData)
           \<and> (\<forall>k \<in> set (js_keys ?obj). map_of ?obj k = Some (?group k))"
    using result created order plain dist keyset groups by blast
  then show ?thesis by (rule exI [of _ ?obj])
qed

text \<open>
  C7, an instance: three alerts for \<^verbatim>\<open>yose\<close> and two for \<^verbatim>\<open>grca\<close>, interleaved.
\<close>

theorem C7_witness:
  "\<exists>alertsByPark.
     snd (call_tool (stub_env ''5'' [] five_alerts)
            \<lparr>params_name = ''getAlerts'', params_arguments = Some []\<rparr>)
       = Inr [text_block (JSON_stringify (JObj [
           (''total'', JNum 5), (''limit'', JNum 10), (''start'', JNum 0),
           (''alerts'', JArr (formatAlertData (\<lambda>d. take 10 d) five_alerts)),
           (''alertsByPark'', JObj alertsByPark)]) (Some 2))]
     \<and> js_keys alertsByPark = [''yose'', ''grca'']
     \<and> map_of alertsByPark ''yose''
         = Some (JArr (formatAlertData (\<lambda>d. take 10 d)
             [stub_alert ''yose'' ''Road closed'' ''Park Closure'',
              stub_alert ''yose'' ''Bears'' ''Caution'',
              stub_alert ''yose'' ''Shuttle'' ''Information'']))
     \<and> map_of alertsByPark ''grca''
         = Some (JArr (formatAlertData (\<lambda>d. take 10 d)
             [stub_alert ''grca'' ''Heat'' ''Danger'',
              stub_alert ''grca'' ''Elk'' ''Wildlife'']))"
proof -
  let ?e = "stub_env ''5'' [] five_alerts"
  let ?r = "\<lparr>resp_total = ''5'', resp_limit = ''10'', resp_start = ''0'',
            resp_data = Some five_alerts\<rparr>"
  have u: "api_alerts ?e (requestParams []) = Inr ?r" by (simp add: stub_env_def)
  have d: "resp_data ?r = Some five_alerts" by simp
  have codes: "map alert_parkCode five_alerts = [''yose'', ''grca'', ''yose'', ''yose'', ''grca'']"
    by (simp add: five_alerts_def stub_alert_def)
  have proto: "\<forall>alert \<in> set five_alerts. alert_parkCode alert \<notin> set Object_prototype_keys"
    by (simp add: five_alerts_def stub_alert_def Object_prototype_keys_def)
  have plain: "\<forall>alert \<in> set five_alerts. \<not> is_array_index (alert_parkCode alert)"
    by (simp add: five_alerts_def stub_alert_def is_array_index_def is_radix_digit_def
        digit_value_def)
  have fo: "first_occurrences (map alert_parkCode five_alerts) = [''yose'', ''grca'']"
    by (simp add: codes)
  have yose: "filter (\<lambda>alert. alert_parkCode alert = ''yose'') five_alerts
      = [stub_alert ''yose'' ''Road closed'' ''Park Closure'',
         stub_alert ''yose'' ''Bears'' ''Caution'',
         stub_alert ''yose'' ''Shuttle'' ''Information'']"
    by (simp add: five_alerts_def stub_alert_def)
  have grca: "filter (\<lambda>alert. alert_parkCode alert = ''grca'') five_alerts
      = [stub_alert ''grca'' ''Heat'' ''Danger'', stub_alert ''grca'' ''Elk'' ''Wildlife'']"
    by (simp add: five_alerts_def stub_alert_def)
  have l: "locale_date ?e = (\<lambda>d. take 10 d)" by (simp add: stub_env_def)
  from C7_alerts_grouped_by_park [OF parse_no_arguments u d proto]
  obtain alertsByPark where
    r: "snd (call_tool ?e \<lparr>params_name = ''getAlerts'', params_arguments = Some []\<rparr>)
             = Inr [text_block (JSON_stringify (JObj [
                 (''total'', parseInt (runtime ?e) (resp_total ?r)),
                 (''limit'', parseInt (runtime ?e) (resp_limit ?r)),
                 (''start'', parseInt (runtime ?e) (resp_start ?r)),
                 (''alerts'', JArr (formatAlertData (locale_date ?e) five_alerts)),
                 (''alertsByPark'', JObj alertsByPark)]) (Some 2))]"
    and k': "(\<forall>alert \<in> set five_alerts. \<not> is_array_index (alert_parkCode alert)) \<longrightarrow>
               js_keys alertsByPark = first_occurrences (map alert_parkCode five_alerts)"
    and g: "\<forall>k \<in> set (js_keys alertsByPark).
                 map_of alertsByPark k
                   = Some (JArr (formatAlertData (locale_date ?e)
                       (filter (\<lambda>alert. alert_parkCode alert = k) five_alerts)))"
    by blast
  have k: "js_keys alertsByPark = first_occurrences (map alert_parkCode five_alerts)"
    using k' plain by blast
  have rt: "runtime ?e = stub_runtime" by (simp add: stub_env_def)
  have p5: "parseInt stub_runtime ''5'' = JNum 5"
    by (simp add: parseInt_def parseInt_numeral_def parseInt_radix_def parseInt_unsigned_def
      parseInt_sign_def stub_runtime_defs is_radix_digit_def digit_value_def radix_value_def)
  have "snd (call_tool ?e \<lparr>params_name = ''getAlerts'', params_arguments = Some []\<rparr>)
       = Inr [text_block (JSON_stringify (JObj [
           (''total'', JNum 5), (''limit'', JNum 10), (''start'', JNum 0),
           (''alerts'', JArr (formatAlertData (\<lambda>d. take 10 d) five_alerts)),
           (''alertsByPark'', JObj alertsByPark)]) (Some 2))]"
    unfolding r l rt by (simp add: parseInt_examples p5)
  moreover have "js_keys alertsByPark = [''yose'', ''grca'']"
    using k by (simp only: fo)
  moreover have "map_of alertsByPark ''yose''
         = Some (JArr (formatAlertData (\<lambda>d. take 10 d)
             [stub_alert ''yose'' ''Road closed'' ''Park Closure'',
              stub_alert ''yose'' ''Bears'' ''Caution'',
              stub_alert ''yose'' ''Shuttle'' ''Information'']))"
    using g unfolding k fo l by (simp add: yose)
  moreover have "map_of alertsByPark ''grca''
         = Some (JArr (formatAlertData (\<lambda>d. take 10 d)
             [stub_alert ''grca'' ''Heat'' ''Danger'',
              stub_alert ''grca'' ''Elk'' ''Wildlife'']))"
    using g unfolding k fo l by (simp add: grca)
  ultimately show ?thesis by blast
qed

text \<open>
  C7 as stated fails for park codes that are array indices: an object enumerates such
  keys first and in ascending numeric order, whatever the order of creation. With one
  alert for \<^verbatim>\<open>"2"\<close> followed by one for \<^verbatim>\<open>"1"\<close>, the object is built with \<^verbatim>\<open>"2"\<close>
  first, and its keys are enumerated (and serialised) as \<^verbatim>\<open>"1"\<close>, \<^verbatim>\<open>"2"\<close>, while the
  order of first occurrence is \<^verbatim>\<open>"2"\<close>, \<^verbatim>\<open>"1"\<close>.
\<close>

theorem C7_counterexample:
  "snd (call_tool
         (stub_env ''2'' [] [stub_alert ''2'' ''Second'' ''Danger'', stub_alert ''1'' ''First'' ''Danger''])
         \<lparr>params_name = ''getAlerts'', params_arguments = Some []\<rparr>)
     = Inr [text_block (JSON_stringify (JObj [
         (''total'', JNum 2), (''limit'', JNum 10), (''start'', JNum 0),
         (''alerts'', JArr
            [formatAlertData_alert (\<lambda>d. take 10 d) (stub_alert ''2'' ''Second'' ''Danger''),
             formatAlertData_alert (\<lambda>d. take 10 d) (stub_alert ''1'' ''First'' ''Danger'')]),
         (''alertsByPark'', JObj
            [(''2'', JArr [formatAlertData_alert (\<lambda>d. take 10 d) (stub_alert ''2'' ''Second'' ''Danger'')]),
             (''1'', JArr [formatAlertData_alert (\<lambda>d. take 10 d) (stub_alert ''1'' ''First'' ''Danger'')])])])
         (Some 2))]
   \<and> js_keys
        [(''2'', JArr [formatAlertData_alert (\<lambda>d. take 10 d) (stub_alert ''2'' ''Second'' ''Danger'')]),
         (''1'', JArr [formatAlertData_alert (\<lambda>d. take 10 d) (stub_alert ''1'' ''First'' ''Danger'')])]
       = [''1'', ''2'']
   \<and> first_occurrences [''2'', ''1''] = [''2'', ''1'']"
proof -
  let ?e = "stub_env ''2'' [] [stub_alert ''2'' ''Second'' ''Danger'', stub_alert ''1'' ''First'' ''Danger'']"
  let ?a2 = "formatAlertData_alert (\<lambda>d. take 10 d) (stub_alert ''2'' ''Second'' ''Danger'')"
  let ?a1 = "formatAlertData_alert (\<lambda>d. take 10 d) (stub_alert ''1'' ''First'' ''Danger'')"
  have k: "js_to_string (js_field ?a2 ''parkCode'') = ''2''" "js_to_string (js_field ?a1 ''parkCode'') = ''1''"
    using alert_key_format [of "\<lambda>d. take 10 d"] by (simp_all add: alert_key_def stub_alert_def)
  have p2: "parseInt stub_runtime ''2'' = JNum 2"
    by (simp add: parseInt_def parseInt_numeral_def parseInt_radix_def parseInt_unsigned_def
      parseInt_sign_def stub_runtime_defs is_radix_digit_def digit_value_def radix_value_def)
  have "snd (call_tool ?e \<lparr>params_name = ''getAlerts'', params_arguments = Some []\<rparr>)
     = Inr [text_block (JSON_stringify (JObj [
         (''total'', JNum 2), (''limit'', JNum 10), (''start'', JNum 0),
         (''alerts'', JArr [?a2, ?a1]),
         (''alertsByPark'', JObj [(''2'', JArr [?a2]), (''1'', JArr [?a1])])]) (Some 2))]"
    unfolding call_tool_getAlerts getAlerts_forward [OF parse_no_arguments]
    by (simp add: stub_env_def formatAlertData_def k Let_def Object_prototype_keys_def
        parseInt_examples p2)
  then show ?thesis
    by (simp add: js_keys_numeric)
qed




text \<open>
  C9. For every park record, \<^verbatim>\<open>location.address\<close> of its detail is built from the
  first entry of \<^verbatim>\<open>addresses\<close> whose type is \<^verbatim>\<open>Physical\<close> (the entry at the least
  index with that type); from the first entry when none has that type; and it is
  \<^verbatim>\<open>undefined\<close> when there is no entry. In that last case the mapping still succeeds:
  \<^verbatim>\<open>getParkDetails\<close> on such a record returns its detail.
\<close>

theorem C9_physical_address_preferred:
  "(\<forall>i < length (addresses park).
      address_type (addresses park ! i) = ''Physical'' \<longrightarrow>
      (\<forall>j < i. address_type (addresses park ! j) \<noteq> ''Physical'') \<longrightarrow>
      location_address (formatParkDetails rt park) = address_object (addresses park ! i))
   \<and> ((\<forall>a \<in> set (addresses park). address_type a \<noteq> ''Physical'') \<longrightarrow>
        addresses park \<noteq> [] \<longrightarrow>
        location_address (formatParkDetails rt park) = address_object (hd (addresses park)))
   \<and> (addresses park = [] \<longrightarrow> location_address (formatParkDetails rt park) = JUndefined)
   \<and> (addresses park = [] \<longrightarrow> js_get arguments ''parkCode'' = JStr c \<longrightarrow>
        api_parks e [(''parkCode'', JStr c), (''limit'', JNum 1)]
          = Inr \<lparr>resp_total = t, resp_limit = l, resp_start = s, resp_data = Some [park]\<rparr> \<longrightarrow>
        snd (call_tool e \<lparr>params_name = ''getParkDetails'', params_arguments = Some arguments\<rparr>)
          = Inr [text_block (JSON_stringify (formatParkDetails (runtime e) park) (Some 2))])"
proof -
  have first: "location_address (formatParkDetails rt park) = address_object (addresses park ! i)"
    if "i < length (addresses park)" "address_type (addresses park ! i) = ''Physical''"
      "\<forall>j < i. address_type (addresses park ! j) \<noteq> ''Physical''" for i
  proof -
    have "find (\<lambda>addr. address_type addr = ''Physical'') (addresses park) = Some (addresses park ! i)"
      using that by (auto simp: find_Some_iff)
    then show ?thesis
      by (simp add: location_address_physicalAddress physicalAddress_def)
  qed
  have none: "location_address (formatParkDetails rt park) = address_object (hd (addresses park))"
    if "\<forall>a \<in> set (addresses park). address_type a \<noteq> ''Physical''" "addresses park \<noteq> []"
  proof -
    have "find (\<lambda>addr. address_type addr = ''Physical'') (addresses park) = None"
      using that by (auto simp: find_None_iff)
    then show ?thesis
      using that(2)
      by (cases "addresses park") (simp_all add: location_address_physicalAddress physicalAddress_def)
  qed
  have empty: "location_address (formatParkDetails rt park) = JUndefined" if "addresses park = []"
    using that by (simp add: location_address_physicalAddress physicalAddress_def)
  have handler: "snd (call_tool e \<lparr>params_name = ''getParkDetails'', params_arguments = Some arguments\<rparr>)
          = Inr [text_block (JSON_stringify (formatParkDetails (runtime e) park) (Some 2))]"
    if "js_get arguments ''parkCode'' = JStr c"
      "api_parks e [(''parkCode'', JStr c), (''limit'', JNum 1)]
          = Inr \<lparr>resp_total = t, resp_limit = l, resp_start = s, resp_data = Some [park]\<rparr>"
  proof -
    have g: "js_get [(''parkCode'', JStr c)] ''parkCode'' = JStr c"
      by (simp add: js_get_def)
    show ?thesis
      unfolding call_tool_getParkDetails getParkDetails_forward [OF parse_parkCode [OF that(1)]] g
      by (simp add: that(2))
  qed
  show ?thesis
    using first none empty handler by blast
qed

text \<open>
  C9, instances: Yellowstone, whose second address is the physical one; the same park
  with its mailing address only; and with no address.
\<close>

theorem C9_witness:
  "location_address (formatParkDetails stub_runtime yellowstone)
     = JObj [(''line1'', JStr ''2 Officers Row''), (''line2'', JStr ''Headquarters''),
             (''city'', JStr ''Yellowstone National Park''), (''stateCode'', JStr ''WY''),
             (''postalCode'', JStr ''82190'')]
   \<and> location_address (formatParkDetails stub_runtime (yellowstone\<lparr>addresses := [hd (addresses yellowstone)]\<rparr>))
     = JObj [(''line1'', JStr ''PO Box 168''), (''line2'', JStr []),
             (''city'', JStr ''Yellowstone National Park''), (''stateCode'', JStr ''WY''),
             (''postalCode'', JStr ''82190-0168'')]
   \<and> location_address (formatParkDetails stub_runtime (yellowstone\<lparr>addresses := []\<rparr>)) = JUndefined
   \<and> snd (call_tool (stub_env ''1'' [yellowstone\<lparr>addresses := []\<rparr>] [])
        \<lparr>params_name = ''getParkDetails'', params_arguments = Some [(''parkCode'', JStr ''yell'')]\<rparr>)
     = Inr [text_block (JSON_stringify (formatParkDetails stub_runtime (yellowstone\<lparr>addresses := []\<rparr>)) (Some 2))]"
proof -
  let ?mailing = "\<lparr>address_type = ''Mailing'', line1 = ''PO Box 168'', line2 = [],
          city = ''Yellowstone National Park'', stateCode = ''WY'', postalCode = ''82190-0168''\<rparr>"
  let ?physical = "\<lparr>address_type = ''Physical'', line1 = ''2 Officers Row'', line2 = ''Headquarters'',
          city = ''Yellowstone National Park'', stateCode = ''WY'', postalCode = ''82190''\<rparr>"
  let ?args = "[(''parkCode'', JStr ''yell'')]"
  let ?bare = "yellowstone\<lparr>addresses := []\<rparr>"
  let ?e = "stub_env ''1'' [?bare] []"
  have a: "addresses yellowstone = [?mailing, ?physical]"
    by (simp add: yellowstone_def)
  have p1: "location_address (formatParkDetails stub_runtime yellowstone) = address_object ?physical"
  proof -
    have "1 < length (addresses yellowstone) \<longrightarrow>
      address_type (addresses yellowstone ! 1) = ''Physical'' \<longrightarrow>
      (\<forall>j < 1. address_type (addresses yellowstone ! j) \<noteq> ''Physical'') \<longrightarrow>
      location_address (formatParkDetails stub_runtime yellowstone) = address_object (addresses yellowstone ! 1)"
      using C9_physical_address_preferred [where park = yellowstone and rt = stub_runtime
          and arguments = ?args and c = "''yell''" and e = ?e and t = "''1''" and l = "''10''"
          and s = "''0''"]
      by blast
    then show ?thesis by (simp add: a)
  qed
  have p2: "location_address (formatParkDetails stub_runtime (yellowstone\<lparr>addresses := [hd (addresses yellowstone)]\<rparr>))
      = address_object ?mailing"
  proof -
    let ?p = "yellowstone\<lparr>addresses := [hd (addresses yellowstone)]\<rparr>"
    have "(\<forall>a \<in> set (addresses ?p). address_type a \<noteq> ''Physical'') \<longrightarrow>
        addresses ?p \<noteq> [] \<longrightarrow>
        location_address (formatParkDetails stub_runtime ?p) = address_object (hd (addresses ?p))"
      using C9_physical_address_preferred [where park = ?p and rt = stub_runtime
          and arguments = ?args and c = "''yell''" and e = ?e and t = "''1''" and l = "''10''"
          and s = "''0''"]
      by blast
    then show ?thesis by (simp add: a)
  qed
  have g: "js_get ?args ''parkCode'' = JStr ''yell''"
    by (simp add: js_get_def)
  have u: "api_parks ?e [(''parkCode'', JStr ''yell''), (''limit'', JNum 1)]
          = Inr \<lparr>resp_total = ''1'', resp_limit = ''10'', resp_start = ''0'', resp_data = Some [?bare]\<rparr>"
    by (simp add: stub_env_def)
  have b: "addresses ?bare = []" by simp
  have rt: "runtime ?e = stub_runtime" by (simp add: stub_env_def)
  have p3: "location_address (formatParkDetails stub_runtime ?bare) = JUndefined"
    using C9_physical_address_preferred [where park = ?bare and rt = stub_runtime
        and arguments = ?args and c = "''yell''" and e = ?e and t = "''1''" and l = "''10''"
        and s = "''0''"] b
    by blast
  have p4: "snd (call_tool ?e \<lparr>params_name = ''getParkDetails'', params_arguments = Some ?args\<rparr>)
     = Inr [text_block (JSON_stringify (formatParkDetails stub_runtime ?bare) (Some 2))]"
    using C9_physical_address_preferred [where park = ?bare and rt = stub_runtime
        and arguments = ?args and c = "''yell''" and e = ?e and t = "''1''" and l = "''10''"
        and s = "''0''"] b g u
    unfolding rt by blast
  show ?thesis
    unfolding p1 p2 p3 p4 by (simp add: address_object_def)
qed

text \<open>
  C10. For every input array, \<^verbatim>\<open>formatParkData\<close> and \<^verbatim>\<open>formatAlertData\<close> return an
  array of the same length whose element at each position is the normalizer's callback
  applied to the input element at that position, and to nothing else (for an alert,
  also the date format of the process): it is what the normalizer returns for the array
  that holds this one element.
\<close>

theorem C10_normalizers_are_pointwise:
  "length (formatParkData rt parkData) = length parkData
   \<and> (\<forall>i < length parkData.
         formatParkData rt parkData ! i = formatParkData_park rt (parkData ! i)
         \<and> formatParkData rt parkData ! i = hd (formatParkData rt [parkData ! i]))
   \<and> length (formatAlertData d alertData) = length alertData
   \<and> (\<forall>i < length alertData.
         formatAlertData d alertData ! i = formatAlertData_alert d (alertData ! i)
         \<and> formatAlertData d alertData ! i = hd (formatAlertData d [alertData ! i]))"
  by (simp add: formatParkData_def formatAlertData_def)

text \<open>
  C10, an instance: two parks, and the last of five alerts.
\<close>

theorem C10_witness:
  "length (formatParkData stub_runtime [yellowstone, yellowstone]) = 2
   \<and> formatParkData stub_runtime [yellowstone, yellowstone] ! 1
       = formatParkData_park stub_runtime yellowstone
   \<and> length (formatAlertData (\<lambda>d. take 10 d) five_alerts) = 5
   \<and> formatAlertData (\<lambda>d. take 10 d) five_alerts ! 4
       = formatAlertData_alert (\<lambda>d. take 10 d) (stub_alert ''grca'' ''Elk'' ''Wildlife'')"
proof -
  have l: "length five_alerts = 5" "five_alerts ! 4 = stub_alert ''grca'' ''Elk'' ''Wildlife''"
    by (simp_all add: five_alerts_def)
  show ?thesis
    using C10_normalizers_are_pointwise [of stub_runtime "[yellowstone, yellowstone]"
        "\<lambda>d. take 10 d" five_alerts]
    by (simp add: l)
qed

end
